theory Spec2Isabelle
  imports Complex_Main "HOL-Library.AList"
begin

section \<open>JavaScript values\<close>

text \<open>
  The repository validates the results of a k6 load test against service-level thresholds.
  Its programs are JavaScript; their inputs are results of \<^verbatim>\<open>JSON.parse\<close> (the k6 summary,
  \<^verbatim>\<open>sla.json\<close>, \<^verbatim>\<open>history.json\<close>), so a value is a JSON value or \<^verbatim>\<open>undefined\<close>, the
  result of reading a property that is not there.

  Numbers are IEEE 754 doubles. A finite double is modelled by its exact value, a real
  number; \<open>NaN\<close> and the two infinities are kept. Every operation that the language
  rounds (\<^verbatim>\<open>*\<close>, \<^verbatim>\<open>-\<close>, \<^verbatim>\<open>/\<close>, the reading of a decimal literal) rounds its exact result
  with \<open>round_double\<close> below, to the nearest double, ties to the even significand, and
  to an infinity beyond the largest double. Only the sign of zero is not kept: no
  operation of the programs below tells \<^verbatim>\<open>-0\<close> from \<^verbatim>\<open>0\<close> (every division is guarded by
  \<^verbatim>\<open>prevVal !== 0\<close>, and \<^verbatim>\<open>toFixed\<close> prints both alike). A number of a JSON text is the
  double of its literal, \<open>round_double\<close> of its decimal value. Strings are lists of
  \<open>char\<close>, one per code unit; the texts the programs compare and scan are ASCII.
\<close>

datatype jsnum = NaN | NInf | Fin real | PInf

datatype jsval =
    Undefined
  | Null
  | Bool bool
  | Num jsnum
  | Str string
  | Arr "jsval list"
  | Obj "(string \<times> jsval) list"

text \<open>The only exception the modelled code raises by itself is a \<^verbatim>\<open>TypeError\<close> (a property
  read on \<^verbatim>\<open>undefined\<close> or \<^verbatim>\<open>null\<close>, a call of something that is not a function); a
  failing \<^verbatim>\<open>fs.writeFileSync\<close> is an \<open>IOError\<close>.\<close>

datatype error = TypeError | IOError

definition bindE :: "error + 'a \<Rightarrow> ('a \<Rightarrow> error + 'b) \<Rightarrow> error + 'b" where
  "bindE m f = (case m of Inl e \<Rightarrow> Inl e | Inr x \<Rightarrow> f x)"

subsection \<open>Rounding to a double\<close>

definition pow2 :: "int \<Rightarrow> real" where
  "pow2 e = (if 0 \<le> e then 2 ^ nat e else 1 / 2 ^ nat (- e))"

text \<open>The exponent of the binade of \<open>a\<close>: the largest \<open>e\<close> with \<open>2^e \<le> a\<close>, and \<open>-1022\<close>,
  the exponent of the subnormal numbers, for every \<open>a\<close> below \<open>2^-1022\<close>. It is found by
  bisection, from the eleven bits of \<open>e + 1022\<close>.\<close>

definition binade :: "real \<Rightarrow> int" where
  "binade a = foldl (\<lambda>e k. if pow2 (e + k) \<le> a then e + k else e) (- 1022)
     [1024, 512, 256, 128, 64, 32, 16, 8, 4, 2, 1]"

text \<open>The integer nearest to \<open>r\<close>, the even one of two; \<open>n\<close> is \<open>\<lfloor>r\<rfloor>\<close>.\<close>

definition half_even :: "int \<Rightarrow> real \<Rightarrow> int" where
  "half_even n r =
     (if r - of_int n < 1 / 2 then n else if 1 / 2 < r - of_int n then n + 1
      else if even n then n else n + 1)"

definition round_half_even :: "real \<Rightarrow> int" where
  "round_half_even r = half_even \<lfloor>r\<rfloor> r"

text \<open>The doubles of the binade with exponent \<open>e\<close> are the multiples of \<open>2^(e - 52)\<close>, the
  unit in the last place of a significand of 53 bits. A magnitude is rounded to the
  nearest multiple of the unit of its binade; a result of \<open>2^1024\<close> or more is beyond the
  largest double.\<close>

definition round_to :: "real \<Rightarrow> real \<Rightarrow> real" where
  "round_to u a = of_int (round_half_even (a / u)) * u"

definition round_magnitude :: "real \<Rightarrow> real" where
  "round_magnitude a = round_to (pow2 (binade a - 52)) a"

definition round_double :: "real \<Rightarrow> jsnum" where
  "round_double x =
     (if pow2 1024 \<le> round_magnitude \<bar>x\<bar> then (if x < 0 then NInf else PInf)
      else Fin (if x < 0 then - round_magnitude \<bar>x\<bar> else round_magnitude \<bar>x\<bar>))"

subsection \<open>Arithmetic and comparison of numbers\<close>

text \<open>The product, the difference and the quotient of two finite numbers are their exact
  results, rounded.\<close>

definition num_sign :: "jsnum \<Rightarrow> int" where
  "num_sign n = (case n of NaN \<Rightarrow> 0 | NInf \<Rightarrow> - 1 | PInf \<Rightarrow> 1
     | Fin x \<Rightarrow> (if x < 0 then - 1 else if x = 0 then 0 else 1))"

definition num_neg :: "jsnum \<Rightarrow> jsnum" where
  "num_neg n = (case n of NaN \<Rightarrow> NaN | NInf \<Rightarrow> PInf | PInf \<Rightarrow> NInf | Fin x \<Rightarrow> Fin (- x))"

definition isNaN :: "jsnum \<Rightarrow> bool" where
  "isNaN n = (n = NaN)"

definition num_mul :: "jsnum \<Rightarrow> jsnum \<Rightarrow> jsnum" where
  "num_mul a b =
     (if a = NaN \<or> b = NaN then NaN
      else case (a, b) of
        (Fin x, Fin y) \<Rightarrow> round_double (x * y)
      | _ \<Rightarrow> (if num_sign a * num_sign b = 0 then NaN
              else if 0 < num_sign a * num_sign b then PInf else NInf))"

definition num_sub :: "jsnum \<Rightarrow> jsnum \<Rightarrow> jsnum" where
  "num_sub a b =
     (case (a, b) of
        (Fin x, Fin y) \<Rightarrow> round_double (x - y)
      | (Fin x, PInf) \<Rightarrow> NInf
      | (Fin x, NInf) \<Rightarrow> PInf
      | (PInf, Fin y) \<Rightarrow> PInf
      | (PInf, NInf) \<Rightarrow> PInf
      | (NInf, Fin y) \<Rightarrow> NInf
      | (NInf, PInf) \<Rightarrow> NInf
      | _ \<Rightarrow> NaN)"

text \<open>Division. A zero divisor is taken as \<^verbatim>\<open>+0\<close>; the programs never divide by zero.\<close>

definition num_div :: "jsnum \<Rightarrow> jsnum \<Rightarrow> jsnum" where
  "num_div a b =
     (case (a, b) of
        (Fin x, Fin y) \<Rightarrow>
          (if y = 0 then (if x = 0 then NaN else if 0 < x then PInf else NInf)
           else round_double (x / y))
      | (Fin x, PInf) \<Rightarrow> Fin 0
      | (Fin x, NInf) \<Rightarrow> Fin 0
      | (PInf, Fin y) \<Rightarrow> (if y < 0 then NInf else PInf)
      | (NInf, Fin y) \<Rightarrow> (if y < 0 then PInf else NInf)
      | _ \<Rightarrow> NaN)"

text \<open>\<open>num_lt a b\<close> is the comparison \<^verbatim>\<open>a < b\<close> of two numbers; \<open>None\<close> is the
  \<^verbatim>\<open>undefined\<close> the specification of the language returns when one of them is \<open>NaN\<close>.\<close>

definition num_lt :: "jsnum \<Rightarrow> jsnum \<Rightarrow> bool option" where
  "num_lt a b =
     (case (a, b) of
        (NaN, _) \<Rightarrow> None
      | (_, NaN) \<Rightarrow> None
      | (Fin x, Fin y) \<Rightarrow> Some (x < y)
      | (NInf, NInf) \<Rightarrow> Some False
      | (NInf, _) \<Rightarrow> Some True
      | (_, NInf) \<Rightarrow> Some False
      | (PInf, _) \<Rightarrow> Some False
      | (_, PInf) \<Rightarrow> Some True)"

subsection \<open>Decimal digits\<close>

definition is_digit :: "char \<Rightarrow> bool" where
  "is_digit c = (48 \<le> (of_char c :: nat) \<and> (of_char c :: nat) \<le> 57)"

definition digit_val :: "char \<Rightarrow> nat" where
  "digit_val c = of_char c - 48"

definition digits_value :: "string \<Rightarrow> nat" where
  "digits_value ds = foldl (\<lambda>a c. 10 * a + digit_val c) 0 ds"

definition digit_char :: "nat \<Rightarrow> char" where
  "digit_char n = ''0123456789'' ! (n mod 10)"

fun show_nat :: "nat \<Rightarrow> string" where
  "show_nat n = (if n < 10 then [digit_char n] else show_nat (n div 10) @ [digit_char (n mod 10)])"

declare show_nat.simps [simp del]

definition pow10 :: "int \<Rightarrow> real" where
  "pow10 e = (if 0 \<le> e then 10 ^ nat e else 1 / 10 ^ nat (- e))"

subsection \<open>Strings to numbers\<close>

text \<open>White space, as far as it is ASCII: TAB, LF, VT, FF, CR and the space.\<close>

definition is_space :: "char \<Rightarrow> bool" where
  "is_space c = ((of_char c :: nat) \<in> {9, 10, 11, 12, 13, 32})"

text \<open>The exponent part of a decimal literal at the front of a string: its value and the
  rest. Without a digit after \<^verbatim>\<open>e\<close> and its sign there is no exponent part.\<close>

definition scan_exponent :: "string \<Rightarrow> int \<times> string" where
  "scan_exponent r =
     (case r of
        [] \<Rightarrow> (0, r)
      | c # t \<Rightarrow>
          if c = CHR ''e'' \<or> c = CHR ''E'' then
            (let sg = (case t of [] \<Rightarrow> 1 | s # u \<Rightarrow> if s = CHR ''-'' then - 1 else (1 :: int));
                 u = (case t of [] \<Rightarrow> t
                        | s # u \<Rightarrow> if s = CHR ''-'' \<or> s = CHR ''+'' then u else t)
             in if takeWhile is_digit u = [] then (0, r)
                else (sg * int (digits_value (takeWhile is_digit u)), dropWhile is_digit u))
          else (0, r))"

text \<open>The longest unsigned \<^verbatim>\<open>StrDecimalLiteral\<close> at the front of a string: \<^verbatim>\<open>Infinity\<close>,
  or digits with an optional fraction and exponent, read as the double nearest to their
  decimal value (the language allows a less exact reading of a literal of more than 20
  significant digits; the engine of Node.js rounds every literal correctly).
  \<open>(NaN, s)\<close> when there is none.\<close>

definition scan_unsigned :: "string \<Rightarrow> jsnum \<times> string" where
  "scan_unsigned s =
     (let ip = takeWhile is_digit s;
          r1 = dropWhile is_digit s;
          fp = (case r1 of [] \<Rightarrow> [] | c # t \<Rightarrow> if c = CHR ''.'' then takeWhile is_digit t else []);
          r2 = (case r1 of [] \<Rightarrow> r1 | c # t \<Rightarrow> if c = CHR ''.'' then dropWhile is_digit t else r1)
      in if ip = [] \<and> fp = [] then
           (if take 8 s = ''Infinity'' then (PInf, drop 8 s) else (NaN, s))
         else
           (let m = of_nat (digits_value ip) + of_nat (digits_value fp) / 10 ^ length fp
            in (round_double (m * pow10 (fst (scan_exponent r2))), snd (scan_exponent r2))))"

definition scan_signed :: "string \<Rightarrow> jsnum \<times> string" where
  "scan_signed s =
     (case s of
        [] \<Rightarrow> (NaN, s)
      | c # t \<Rightarrow>
          if c = CHR ''-'' then
            (if fst (scan_unsigned t) = NaN then (NaN, s)
             else (num_neg (fst (scan_unsigned t)), snd (scan_unsigned t)))
          else if c = CHR ''+'' then
            (if fst (scan_unsigned t) = NaN then (NaN, s) else scan_unsigned t)
          else scan_unsigned s)"

text \<open>\<^verbatim>\<open>parseFloat\<close> of a string: leading white space is skipped, the longest prefix that
  is a decimal literal is read, anything after it is ignored.\<close>

definition parseFloat_str :: "string \<Rightarrow> jsnum" where
  "parseFloat_str s = fst (scan_signed (dropWhile is_space s))"

definition radix_digit :: "char \<Rightarrow> nat option" where
  "radix_digit c =
     (let n = (of_char c :: nat) in
      if 48 \<le> n \<and> n \<le> 57 then Some (n - 48)
      else if 97 \<le> n \<and> n \<le> 102 then Some (n - 87)
      else if 65 \<le> n \<and> n \<le> 70 then Some (n - 55)
      else None)"

definition scan_radix :: "nat \<Rightarrow> string \<Rightarrow> jsnum" where
  "scan_radix b ds =
     (if ds \<noteq> [] \<and> list_all (\<lambda>c. case radix_digit c of None \<Rightarrow> False | Some d \<Rightarrow> d < b) ds
      then round_double (of_nat (foldl (\<lambda>a c. b * a + (case radix_digit c of None \<Rightarrow> 0 | Some d \<Rightarrow> d)) 0 ds))
      else NaN)"

definition trim :: "string \<Rightarrow> string" where
  "trim s = rev (dropWhile is_space (rev (dropWhile is_space s)))"

text \<open>\<^verbatim>\<open>StringToNumber\<close>, the coercion of a string by an arithmetic operator: the whole
  trimmed string must be a numeric literal; the empty string is 0.\<close>

definition string_to_number :: "string \<Rightarrow> jsnum" where
  "string_to_number s =
     (let t = trim s in
      if t = [] then Fin 0
      else if take 2 t = ''0x'' \<or> take 2 t = ''0X'' then scan_radix 16 (drop 2 t)
      else if take 2 t = ''0o'' \<or> take 2 t = ''0O'' then scan_radix 8 (drop 2 t)
      else if take 2 t = ''0b'' \<or> take 2 t = ''0B'' then scan_radix 2 (drop 2 t)
      else if snd (scan_signed t) = [] then fst (scan_signed t) else NaN)"

subsection \<open>Numbers to strings\<close>

text \<open>
  \<^verbatim>\<open>Number.prototype.toString\<close> prints the shortest decimal that reads back as the same
  double; that depends on the binary representation, so the printing of a finite number
  is a parameter \<open>nts\<close> of every function that needs it, and the theorems hold for each
  \<open>nts\<close>. Two facts about it are used in the definitions of \<open>to_number\<close> and
  \<open>parseFloat\<close> below: reading back what it printed gives the number again.
\<close>

definition num_to_string :: "(real \<Rightarrow> string) \<Rightarrow> jsnum \<Rightarrow> string" where
  "num_to_string nts n =
     (case n of NaN \<Rightarrow> ''NaN'' | PInf \<Rightarrow> ''Infinity'' | NInf \<Rightarrow> ''-Infinity'' | Fin x \<Rightarrow> nts x)"

text \<open>\<^verbatim>\<open>Number.prototype.toFixed(d)\<close>: the integer \<open>n\<close> with \<open>n / 10^d\<close> nearest to
  \<open>|x|\<close> (the larger one of two), printed with \<open>d\<close> digits after the point.\<close>

definition to_fixed :: "(real \<Rightarrow> string) \<Rightarrow> nat \<Rightarrow> jsnum \<Rightarrow> string" where
  "to_fixed nts d n =
     (case n of
        NaN \<Rightarrow> ''NaN''
      | PInf \<Rightarrow> ''Infinity''
      | NInf \<Rightarrow> ''-Infinity''
      | Fin x \<Rightarrow>
          (if x < 0 then ''-'' else '''') @
          (if 10 ^ 21 \<le> \<bar>x\<bar> then nts \<bar>x\<bar>
           else
             (let ds = show_nat (nat \<lfloor>\<bar>x\<bar> * 10 ^ d + 1 / 2\<rfloor>);
                  padded = replicate (Suc d - length ds) (CHR ''0'') @ ds
              in if d = 0 then padded
                 else take (length padded - d) padded @ ''.'' @ drop (length padded - d) padded)))"

text \<open>An integer printer, for worked examples of \<open>nts\<close>; it is \<^verbatim>\<open>toString\<close> on the
  integers below \<open>10^21\<close>.\<close>

definition show_int :: "real \<Rightarrow> string" where
  "show_int x = (if x < 0 then ''-'' else '''') @ show_nat (nat \<lfloor>\<bar>x\<bar>\<rfloor>)"

subsection \<open>Coercions of values\<close>

text \<open>Truthiness, and the operator \<^verbatim>\<open>a || b\<close>, which yields \<open>a\<close> itself when it is truthy.\<close>

definition truthy :: "jsval \<Rightarrow> bool" where
  "truthy v =
     (case v of
        Undefined \<Rightarrow> False
      | Null \<Rightarrow> False
      | Bool b \<Rightarrow> b
      | Num n \<Rightarrow> n \<noteq> NaN \<and> n \<noteq> Fin 0
      | Str s \<Rightarrow> s \<noteq> []
      | Arr _ \<Rightarrow> True
      | Obj _ \<Rightarrow> True)"

definition js_or :: "jsval \<Rightarrow> jsval \<Rightarrow> jsval" where
  "js_or a b = (if truthy a then a else b)"

definition join_comma :: "string list \<Rightarrow> string" where
  "join_comma ss = (case ss of [] \<Rightarrow> [] | s # r \<Rightarrow> foldl (\<lambda>acc t. acc @ '','' @ t) s r)"

text \<open>\<^verbatim>\<open>ToString\<close>, as a template literal applies it. An array prints its elements
  separated by commas, \<^verbatim>\<open>null\<close> and \<^verbatim>\<open>undefined\<close> among them as the empty string.\<close>

fun to_string :: "(real \<Rightarrow> string) \<Rightarrow> jsval \<Rightarrow> string" where
  "to_string nts Undefined = ''undefined''"
| "to_string nts Null = ''null''"
| "to_string nts (Bool b) = (if b then ''true'' else ''false'')"
| "to_string nts (Num n) = num_to_string nts n"
| "to_string nts (Str s) = s"
| "to_string nts (Arr xs) =
     join_comma (map (\<lambda>x. if x = Undefined \<or> x = Null then [] else to_string nts x) xs)"
| "to_string nts (Obj ps) = ''[object Object]''"

text \<open>\<^verbatim>\<open>ToNumber\<close>. An array is coerced through its string: the empty array gives 0, an
  array of one element the number of that element's string, a longer one has a comma in
  its string and gives \<open>NaN\<close>. A number element reads back as itself.\<close>

fun to_number :: "jsval \<Rightarrow> jsnum" where
  "to_number Undefined = NaN"
| "to_number Null = Fin 0"
| "to_number (Bool b) = Fin (if b then 1 else 0)"
| "to_number (Num n) = n"
| "to_number (Str s) = string_to_number s"
| "to_number (Obj ps) = NaN"
| "to_number (Arr []) = Fin 0"
| "to_number (Arr [Undefined]) = Fin 0"
| "to_number (Arr [Null]) = Fin 0"
| "to_number (Arr [Bool b]) = NaN"
| "to_number (Arr [Num n]) = n"
| "to_number (Arr [Str s]) = string_to_number s"
| "to_number (Arr [Obj ps]) = NaN"
| "to_number (Arr [Arr ys]) = to_number (Arr ys)"
| "to_number (Arr (x # y # zs)) = NaN"

text \<open>\<^verbatim>\<open>parseFloat(v)\<close> reads a number at the front of the string of \<open>v\<close>; of an array
  that is the front of the string of its first element, a comma being no part of a
  number.\<close>

fun parseFloat :: "jsval \<Rightarrow> jsnum" where
  "parseFloat (Num n) = n"
| "parseFloat (Str s) = parseFloat_str s"
| "parseFloat (Arr (x # xs)) = parseFloat x"
| "parseFloat v = NaN"

text \<open>The code units of two strings compared from the left, as \<^verbatim>\<open><\<close> does on strings.\<close>

fun str_lt :: "string \<Rightarrow> string \<Rightarrow> bool" where
  "str_lt [] [] = False"
| "str_lt [] (y # ys) = True"
| "str_lt (x # xs) [] = False"
| "str_lt (x # xs) (y # ys) =
     ((of_char x :: nat) < of_char y \<or> (x = y \<and> str_lt xs ys))"

definition to_primitive :: "(real \<Rightarrow> string) \<Rightarrow> jsval \<Rightarrow> jsval" where
  "to_primitive nts v = (case v of Arr xs \<Rightarrow> Str (to_string nts v)
     | Obj ps \<Rightarrow> Str (to_string nts v) | _ \<Rightarrow> v)"

text \<open>The relational comparison \<^verbatim>\<open>a < b\<close> of two values: of their strings when both are
  strings after \<^verbatim>\<open>ToPrimitive\<close>, of their numbers otherwise; \<open>None\<close> when a number is
  \<open>NaN\<close>. The four operators read it as the language defines them.\<close>

definition js_lt :: "(real \<Rightarrow> string) \<Rightarrow> jsval \<Rightarrow> jsval \<Rightarrow> bool option" where
  "js_lt nts a b =
     (case (to_primitive nts a, to_primitive nts b) of
        (Str s, Str t) \<Rightarrow> Some (str_lt s t)
      | _ \<Rightarrow> num_lt (to_number a) (to_number b))"

definition js_less :: "(real \<Rightarrow> string) \<Rightarrow> jsval \<Rightarrow> jsval \<Rightarrow> bool" where
  "js_less nts a b = (js_lt nts a b = Some True)"

definition js_greater :: "(real \<Rightarrow> string) \<Rightarrow> jsval \<Rightarrow> jsval \<Rightarrow> bool" where
  "js_greater nts a b = (js_lt nts b a = Some True)"

definition js_le :: "(real \<Rightarrow> string) \<Rightarrow> jsval \<Rightarrow> jsval \<Rightarrow> bool" where
  "js_le nts a b = (js_lt nts b a = Some False)"

definition js_ge :: "(real \<Rightarrow> string) \<Rightarrow> jsval \<Rightarrow> jsval \<Rightarrow> bool" where
  "js_ge nts a b = (js_lt nts a b = Some False)"

text \<open>\<^verbatim>\<open>v.toFixed(d)\<close>: only a number has the method; on \<^verbatim>\<open>undefined\<close> and \<^verbatim>\<open>null\<close> the
  property read raises, on any other value the call of \<^verbatim>\<open>undefined\<close> does.\<close>

definition toFixed :: "(real \<Rightarrow> string) \<Rightarrow> nat \<Rightarrow> jsval \<Rightarrow> error + string" where
  "toFixed nts d v = (case v of Num n \<Rightarrow> Inr (to_fixed nts d n) | _ \<Rightarrow> Inl TypeError)"

subsection \<open>Objects and their properties\<close>

text \<open>
  \<open>Obj ps\<close> is the object whose members were defined in the order of \<open>ps\<close>, as
  \<^verbatim>\<open>JSON.parse\<close> and an object literal do. Its own properties are listed the way the
  language enumerates them: a member defined again keeps its place and takes the later
  value; the keys that are array indices come first, in ascending order, the other keys
  follow in the order of their definition.
\<close>

definition is_index :: "string \<Rightarrow> bool" where
  "is_index k = (k \<noteq> [] \<and> list_all is_digit k \<and> (k = ''0'' \<or> hd k \<noteq> CHR ''0'')
     \<and> int (digits_value k) < 2 ^ 32 - 1)"

fun insert_index :: "string \<Rightarrow> jsval \<Rightarrow> (string \<times> jsval) list \<Rightarrow> (string \<times> jsval) list" where
  "insert_index k v [] = [(k, v)]"
| "insert_index k v (p # ps) =
     (if is_index (fst p) \<and> digits_value (fst p) < digits_value k
      then p # insert_index k v ps else (k, v) # p # ps)"

definition put :: "(string \<times> jsval) list \<Rightarrow> string \<Rightarrow> jsval \<Rightarrow> (string \<times> jsval) list" where
  "put ps k v =
     (if is_index k \<and> k \<notin> fst ` set ps then insert_index k v ps else AList.update k v ps)"

definition put_all :: "(string \<times> jsval) list \<Rightarrow> (string \<times> jsval) list \<Rightarrow> (string \<times> jsval) list" where
  "put_all ps qs = foldl (\<lambda>acc kv. put acc (fst kv) (snd kv)) ps qs"

text \<open>The own enumerable properties of a value: of an object its members, of an array and
  of a string the elements under their indices, of any other value none.\<close>

definition own_props :: "jsval \<Rightarrow> (string \<times> jsval) list" where
  "own_props v =
     (case v of
        Obj ps \<Rightarrow> put_all [] ps
      | Arr xs \<Rightarrow> map (\<lambda>i. (show_nat i, xs ! i)) [0 ..< length xs]
      | Str s \<Rightarrow> map (\<lambda>i. (show_nat i, Str [s ! i])) [0 ..< length s]
      | _ \<Rightarrow> [])"

definition own_prop :: "(string \<times> jsval) list \<Rightarrow> string \<Rightarrow> jsval" where
  "own_prop ps k = (case map_of ps k of None \<Rightarrow> Undefined | Some v \<Rightarrow> v)"

text \<open>
  Reading a property, \<^verbatim>\<open>v.k\<close> or \<^verbatim>\<open>v[k]\<close>: a \<^verbatim>\<open>TypeError\<close> on \<^verbatim>\<open>undefined\<close> and
  \<^verbatim>\<open>null\<close>, the own property or \<^verbatim>\<open>undefined\<close> otherwise. The members the built-in
  prototypes add (\<^verbatim>\<open>constructor\<close>, \<^verbatim>\<open>toString\<close>, the \<^verbatim>\<open>length\<close> of arrays and strings,
  ...) are not modelled. None of the names the programs read is one of them. Where the
  key is data (the profile name, the name of a metric of the history), such a member is
  a function or a number: it has no own properties to spread and no \<^verbatim>\<open>actual\<close>, and the
  programs go on as they do for \<^verbatim>\<open>undefined\<close>.
\<close>

definition get :: "jsval \<Rightarrow> string \<Rightarrow> error + jsval" where
  "get v k =
     (case v of
        Undefined \<Rightarrow> Inl TypeError
      | Null \<Rightarrow> Inl TypeError
      | _ \<Rightarrow> Inr (own_prop (own_props v) k))"

text \<open>The spread \<^verbatim>\<open>{...a, ...b}\<close> copies the own properties of \<open>a\<close>, then those of \<open>b\<close>.\<close>

definition spread2 :: "jsval \<Rightarrow> jsval \<Rightarrow> (string \<times> jsval) list" where
  "spread2 a b = put_all (put_all [] (own_props a)) (own_props b)"

section \<open>The SLA validator (\<^verbatim>\<open>validateAgainstSLA\<close>)\<close>

text \<open>
  The metrics object that \<^verbatim>\<open>extractK6Metrics\<close> builds and the validator and the report
  read. Every field holds a value: the extractor stores whatever truthy value the payload
  has under a name.
\<close>

record check_data =
  check_name :: jsval
  passes :: jsval
  fails :: jsval

record endpoint =
  endpoint_name :: string
  avgDur :: jsval

record metricset =
  p50ResponseTime :: jsval
  p90ResponseTime :: jsval
  p95ResponseTime :: jsval
  p99ResponseTime :: jsval
  avgResponseTime :: jsval
  minResponseTime :: jsval
  maxResponseTime :: jsval
  errorRate :: jsval
  throughput :: jsval
  totalRequests :: jsval
  iterations :: jsval
  checksData :: "check_data list"
  endpoints :: "endpoint list"

text \<open>The two fields the validator reads of the infrastructure metrics that
  \<^verbatim>\<open>queryObservability\<close> returns; \<^verbatim>\<open>'N/A'\<close> stands for a metric that was not measured.\<close>

record infra_metrics =
  avgCpuUsage :: jsval
  avgMemoryUsage :: jsval

record validation_result =
  metric :: string
  actual :: jsval
  threshold :: string
  passed :: bool

text \<open>
  \<^verbatim>\<open>const profileSla = slaConfig.profiles[runProfile] || {};\<close>
  \<^verbatim>\<open>const performanceSla = { ...slaConfig.performance, ...profileSla };\<close>
\<close>

definition performanceSla :: "jsval \<Rightarrow> string \<Rightarrow> error + (string \<times> jsval) list" where
  "performanceSla slaConfig runProfile =
     bindE (get slaConfig ''profiles'') (\<lambda>profiles.
     bindE (get profiles runProfile) (\<lambda>p.
     bindE (get slaConfig ''performance'') (\<lambda>performance.
       Inr (spread2 performance (js_or p (Obj []))))))"

text \<open>The effective threshold of a key, as the specification words it: the value the
  active profile defines for the key when it defines one, and the global default
  otherwise. (The active profile is \<^verbatim>\<open>slaConfig.profiles[runProfile] || {}\<close>; what it
  defines are its own properties.)\<close>

definition effective_threshold :: "jsval \<Rightarrow> jsval \<Rightarrow> string \<Rightarrow> jsval" where
  "effective_threshold defaults p k =
     (case map_of (own_props (js_or p (Obj []))) k of
        Some v \<Rightarrow> v
      | None \<Rightarrow> own_prop (own_props defaults) k)"

text \<open>One pushed result with a \<^verbatim>\<open><=\<close> bound:
  \<^verbatim>\<open>{ metric, actual: value.toFixed(2), threshold: `<= ${bound}`, passed: value <= bound }\<close>,
  and the one with a \<^verbatim>\<open>>=\<close> bound.\<close>

definition le_result ::
  "(real \<Rightarrow> string) \<Rightarrow> string \<Rightarrow> jsval \<Rightarrow> jsval \<Rightarrow> error + validation_result" where
  "le_result nts name v bound =
     bindE (toFixed nts 2 v) (\<lambda>a.
       Inr \<lparr> metric = name, actual = Str a, threshold = ''<= '' @ to_string nts bound,
             passed = js_le nts v bound \<rparr>)"

definition ge_result ::
  "(real \<Rightarrow> string) \<Rightarrow> string \<Rightarrow> jsval \<Rightarrow> jsval \<Rightarrow> error + validation_result" where
  "ge_result nts name v bound =
     bindE (toFixed nts 2 v) (\<lambda>a.
       Inr \<lparr> metric = name, actual = Str a, threshold = ''>= '' @ to_string nts bound,
             passed = js_ge nts v bound \<rparr>)"

text \<open>An infrastructure result: the value is reported as it is and compared through
  \<^verbatim>\<open>parseFloat\<close>; the bound is read from \<^verbatim>\<open>slaConfig.infrastructure\<close>.\<close>

definition infra_result ::
  "(real \<Rightarrow> string) \<Rightarrow> string \<Rightarrow> jsval \<Rightarrow> jsval \<Rightarrow> string \<Rightarrow> error + validation_result" where
  "infra_result nts name v infraSla key =
     bindE (get infraSla key) (\<lambda>bound.
       Inr \<lparr> metric = name, actual = v, threshold = ''<= '' @ to_string nts bound,
             passed = js_le nts (Num (parseFloat v)) bound \<rparr>)"

text \<open>The bounds of the percentile checks: \<^verbatim>\<open>performanceSla.p50_response_time_ms || 200\<close>
  and its like for P90 and P99, the configured value alone for P95 and the error rate.\<close>

definition p50_bound :: "(string \<times> jsval) list \<Rightarrow> jsval" where
  "p50_bound sla = js_or (own_prop sla ''p50_response_time_ms'') (Num (Fin 200))"

definition p90_bound :: "(string \<times> jsval) list \<Rightarrow> jsval" where
  "p90_bound sla = js_or (own_prop sla ''p90_response_time_ms'') (Num (Fin 400))"

definition p95_bound :: "(string \<times> jsval) list \<Rightarrow> jsval" where
  "p95_bound sla = own_prop sla ''p95_response_time_ms''"

definition p99_bound :: "(string \<times> jsval) list \<Rightarrow> jsval" where
  "p99_bound sla = js_or (own_prop sla ''p99_response_time_ms'') (Num (Fin 1000))"

definition error_rate_bound :: "(string \<times> jsval) list \<Rightarrow> jsval" where
  "error_rate_bound sla = own_prop sla ''max_error_rate_percent''"

definition throughput_bound :: "(string \<times> jsval) list \<Rightarrow> jsval" where
  "throughput_bound sla = own_prop sla ''min_throughput_rps''"

text \<open>The validator. The trace it prints is not part of the model; the list it returns
  is.\<close>

definition validateAgainstSLA ::
  "(real \<Rightarrow> string) \<Rightarrow> metricset \<Rightarrow> infra_metrics \<Rightarrow> string \<Rightarrow> jsval
     \<Rightarrow> error + validation_result list" where
  "validateAgainstSLA nts k6Metrics infraMetrics runProfile slaConfig =
     bindE (performanceSla slaConfig runProfile) (\<lambda>sla.
     bindE (get slaConfig ''infrastructure'') (\<lambda>infraSla.
     bindE (le_result nts ''P50 Response Time (ms)'' (p50ResponseTime k6Metrics) (p50_bound sla)) (\<lambda>r50.
     bindE (le_result nts ''P90 Response Time (ms)'' (p90ResponseTime k6Metrics) (p90_bound sla)) (\<lambda>r90.
     bindE (le_result nts ''P95 Response Time (ms)'' (p95ResponseTime k6Metrics) (p95_bound sla)) (\<lambda>r95.
     bindE (le_result nts ''P99 Response Time (ms)'' (p99ResponseTime k6Metrics) (p99_bound sla)) (\<lambda>r99.
     bindE (le_result nts ''Error Rate (%)'' (errorRate k6Metrics) (error_rate_bound sla)) (\<lambda>rerr.
     bindE (if truthy (throughput_bound sla)
            then bindE (ge_result nts ''Throughput (req/s)'' (throughput k6Metrics)
                          (throughput_bound sla)) (\<lambda>r. Inr [r])
            else Inr []) (\<lambda>rtp.
     bindE (if avgCpuUsage infraMetrics \<noteq> Str ''N/A''
            then bindE (infra_result nts ''CPU Usage (%)'' (avgCpuUsage infraMetrics) infraSla
                          ''max_cpu_usage_percent'') (\<lambda>r. Inr [r])
            else Inr []) (\<lambda>rcpu.
     bindE (if avgMemoryUsage infraMetrics \<noteq> Str ''N/A''
            then bindE (infra_result nts ''Memory Usage (%)'' (avgMemoryUsage infraMetrics) infraSla
                          ''max_memory_usage_percent'') (\<lambda>r. Inr [r])
            else Inr []) (\<lambda>rmem.
       Inr ([r50, r90, r95, r99, rerr] @ rtp @ rcpu @ rmem)))))))))))"

section \<open>The metric extractor (\<^verbatim>\<open>extractK6Metrics\<close>)\<close>

fun mapE :: "('a \<Rightarrow> error + 'b) \<Rightarrow> 'a list \<Rightarrow> error + 'b list" where
  "mapE f [] = Inr []"
| "mapE f (x # xs) = bindE (f x) (\<lambda>y. bindE (mapE f xs) (\<lambda>ys. Inr (y # ys)))"

text \<open>The object the extractor starts from: every numeric field is 0.\<close>

definition initial_metrics :: metricset where
  "initial_metrics =
     \<lparr> p50ResponseTime = Num (Fin 0), p90ResponseTime = Num (Fin 0),
       p95ResponseTime = Num (Fin 0), p99ResponseTime = Num (Fin 0),
       avgResponseTime = Num (Fin 0), minResponseTime = Num (Fin 0),
       maxResponseTime = Num (Fin 0), errorRate = Num (Fin 0), throughput = Num (Fin 0),
       totalRequests = Num (Fin 0), iterations = Num (Fin 0),
       checksData = [], endpoints = [] \<rparr>"

text \<open>\<^verbatim>\<open>if (summary.metrics.http_req_duration) { ... }\<close>: the seven latency fields, each
  with its fallback \<^verbatim>\<open>|| 0\<close>; the median from \<^verbatim>\<open>med\<close>, else from \<^verbatim>\<open>p(50)\<close>.\<close>

definition extract_durations :: "jsval \<Rightarrow> metricset \<Rightarrow> error + metricset" where
  "extract_durations duration m =
     bindE (get duration ''med'') (\<lambda>med.
     bindE (get duration ''p(50)'') (\<lambda>p50.
     bindE (get duration ''p(90)'') (\<lambda>p90.
     bindE (get duration ''p(95)'') (\<lambda>p95.
     bindE (get duration ''p(99)'') (\<lambda>p99.
     bindE (get duration ''avg'') (\<lambda>avg.
     bindE (get duration ''min'') (\<lambda>mn.
     bindE (get duration ''max'') (\<lambda>mx.
       Inr (m \<lparr> p50ResponseTime := js_or (js_or med p50) (Num (Fin 0)),
                 p90ResponseTime := js_or p90 (Num (Fin 0)),
                 p95ResponseTime := js_or p95 (Num (Fin 0)),
                 p99ResponseTime := js_or p99 (Num (Fin 0)),
                 avgResponseTime := js_or avg (Num (Fin 0)),
                 minResponseTime := js_or mn (Num (Fin 0)),
                 maxResponseTime := js_or mx (Num (Fin 0)) \<rparr>)))))))))"

text \<open>\<^verbatim>\<open>metrics.name && metrics.name.value\<close>: the \<^verbatim>\<open>value\<close> of a metric that is there,
  \<^verbatim>\<open>undefined\<close> for a metric that is not. The test of the source,
  \<^verbatim>\<open>metrics.name && metrics.name.value !== undefined\<close>, holds when this is not
  \<^verbatim>\<open>undefined\<close>.\<close>

definition metric_value :: "jsval \<Rightarrow> string \<Rightarrow> error + jsval" where
  "metric_value ms name =
     bindE (get ms name) (\<lambda>x. if truthy x then get x ''value'' else Inr Undefined)"

text \<open>The error rate: the \<^verbatim>\<open>errors\<close> metric first, \<^verbatim>\<open>http_req_failed\<close> second, else the
  initial 0; \<^verbatim>\<open>value * 100\<close> coerces the value to a number and is the product of two
  doubles, their exact product rounded (\<open>num_mul\<close>).\<close>

definition extract_errorRate :: "jsval \<Rightarrow> metricset \<Rightarrow> error + metricset" where
  "extract_errorRate ms m =
     bindE (metric_value ms ''errors'') (\<lambda>ev.
       if ev \<noteq> Undefined
       then Inr (m \<lparr> errorRate := Num (num_mul (to_number ev) (Fin 100)) \<rparr>)
       else
         bindE (metric_value ms ''http_req_failed'') (\<lambda>fv.
           if fv \<noteq> Undefined
           then Inr (m \<lparr> errorRate := Num (num_mul (to_number fv) (Fin 100)) \<rparr>)
           else Inr m))"

definition extract_requests :: "jsval \<Rightarrow> metricset \<Rightarrow> error + metricset" where
  "extract_requests ms m =
     bindE (get ms ''http_reqs'') (\<lambda>reqs.
       if truthy reqs then
         bindE (get reqs ''rate'') (\<lambda>rate.
         bindE (get reqs ''count'') (\<lambda>cnt.
           Inr (m \<lparr> throughput := js_or rate (Num (Fin 0)),
                     totalRequests := js_or cnt (Num (Fin 0)) \<rparr>)))
       else Inr m)"

definition extract_iterations :: "jsval \<Rightarrow> metricset \<Rightarrow> error + metricset" where
  "extract_iterations ms m =
     bindE (get ms ''iterations'') (\<lambda>its.
       if truthy its then
         bindE (get its ''count'') (\<lambda>cnt. Inr (m \<lparr> iterations := js_or cnt (Num (Fin 0)) \<rparr>))
       else Inr m)"

text \<open>One entry of \<^verbatim>\<open>checksData\<close>, the body of both \<^verbatim>\<open>forEach\<close> loops.\<close>

definition check_entry :: "jsval \<Rightarrow> error + check_data" where
  "check_entry c =
     bindE (get c ''name'') (\<lambda>n.
     bindE (get c ''passes'') (\<lambda>p.
     bindE (get c ''fails'') (\<lambda>f.
       Inr \<lparr> check_name = js_or n (Str ''Unknown Check''), passes = p, fails = f \<rparr>)))"

definition typeof_object :: "jsval \<Rightarrow> bool" where
  "typeof_object v = (case v of Null \<Rightarrow> True | Arr xs \<Rightarrow> True | Obj ps \<Rightarrow> True | _ \<Rightarrow> False)"

text \<open>The checks of \<^verbatim>\<open>summary.root_group\<close>: the elements of an array
  (\<^verbatim>\<open>Array.isArray\<close>), or the values of a truthy value of type \<^verbatim>\<open>'object'\<close>
  (\<^verbatim>\<open>Object.values\<close>), else none.\<close>

definition extract_checks :: "jsval \<Rightarrow> error + check_data list" where
  "extract_checks summary =
     bindE (get summary ''root_group'') (\<lambda>rg.
       if truthy rg then
         bindE (get rg ''checks'') (\<lambda>checks.
           case checks of
             Arr xs \<Rightarrow> mapE check_entry xs
           | _ \<Rightarrow>
               if truthy checks \<and> typeof_object checks
               then mapE check_entry (map snd (own_props checks))
               else Inr [])
       else Inr [])"

text \<open>\<^verbatim>\<open>{ name, avgDur: metric.avg?.toFixed(2) || 0 }\<close> for a custom duration metric that
  is there.\<close>

definition endpoint_entry ::
  "(real \<Rightarrow> string) \<Rightarrow> jsval \<Rightarrow> string \<Rightarrow> string \<Rightarrow> error + endpoint list" where
  "endpoint_entry nts ms key label =
     bindE (get ms key) (\<lambda>d.
       if truthy d then
         bindE (get d ''avg'') (\<lambda>avg.
         bindE (if avg = Undefined \<or> avg = Null then Inr Undefined
                else bindE (toFixed nts 2 avg) (\<lambda>s. Inr (Str s))) (\<lambda>a.
           Inr [\<lparr> endpoint_name = label, avgDur = js_or a (Num (Fin 0)) \<rparr>]))
       else Inr [])"

text \<open>The trace at the end calls \<^verbatim>\<open>toFixed(2)\<close> on seven fields, which raises on a field
  that is no number; what it prints is not modelled.\<close>

definition log_metrics :: "(real \<Rightarrow> string) \<Rightarrow> metricset \<Rightarrow> error + unit" where
  "log_metrics nts m =
     bindE (toFixed nts 2 (p50ResponseTime m)) (\<lambda>_.
     bindE (toFixed nts 2 (p90ResponseTime m)) (\<lambda>_.
     bindE (toFixed nts 2 (p95ResponseTime m)) (\<lambda>_.
     bindE (toFixed nts 2 (p99ResponseTime m)) (\<lambda>_.
     bindE (toFixed nts 2 (avgResponseTime m)) (\<lambda>_.
     bindE (toFixed nts 2 (errorRate m)) (\<lambda>_.
     bindE (toFixed nts 2 (throughput m)) (\<lambda>_. Inr ())))))))"

definition extractK6Metrics :: "(real \<Rightarrow> string) \<Rightarrow> jsval \<Rightarrow> error + metricset" where
  "extractK6Metrics nts summary =
     bindE (get summary ''metrics'') (\<lambda>ms.
     bindE (get ms ''http_req_duration'') (\<lambda>duration.
     bindE (if truthy duration then extract_durations duration initial_metrics
            else Inr initial_metrics) (\<lambda>m1.
     bindE (extract_errorRate ms m1) (\<lambda>m2.
     bindE (extract_requests ms m2) (\<lambda>m3.
     bindE (extract_iterations ms m3) (\<lambda>m4.
     bindE (extract_checks summary) (\<lambda>cs.
     bindE (endpoint_entry nts ms ''browse_duration'' ''GET /posts (Browse/List)'') (\<lambda>e1.
     bindE (endpoint_entry nts ms ''api_duration'' ''API Dynamic endpoints (GET/POST)'') (\<lambda>e2.
     bindE (log_metrics nts (m4 \<lparr> checksData := cs, endpoints := e1 @ e2 \<rparr>)) (\<lambda>_.
       Inr (m4 \<lparr> checksData := cs, endpoints := e1 @ e2 \<rparr>)))))))))))"

section \<open>The history store (\<^verbatim>\<open>saveToHistory\<close>)\<close>

text \<open>
  The state is the file \<^verbatim>\<open>reports/history.json\<close>: absent, there but unreadable, or a
  text; and whether it can be written. \<^verbatim>\<open>JSON.parse\<close> and \<^verbatim>\<open>JSON.stringify\<close> are
  parameters (\<open>None\<close> is the \<^verbatim>\<open>SyntaxError\<close> of a text that is no JSON), and so are the
  clock readings \<^verbatim>\<open>Date.now()\<close> and \<^verbatim>\<open>new Date().toISOString()\<close>.
\<close>

datatype file_state = NoFile | Unreadable | Text string

record disk =
  history_file :: file_state
  writable :: bool

text \<open>\<^verbatim>\<open>let history = []; if (exists) { try { history = JSON.parse(read) } catch { history = [] } }\<close>\<close>

definition load_history :: "(string \<Rightarrow> jsval option) \<Rightarrow> disk \<Rightarrow> jsval" where
  "load_history json_parse d =
     (case history_file d of
        NoFile \<Rightarrow> Arr []
      | Unreadable \<Rightarrow> Arr []
      | Text t \<Rightarrow> (case json_parse t of None \<Rightarrow> Arr [] | Some v \<Rightarrow> v))"

definition count_num :: "nat \<Rightarrow> jsval" where
  "count_num n = Num (Fin (of_nat n))"

text \<open>The run record. \<^verbatim>\<open>metadata = {}\<close> is the default of the parameter, taken for
  \<^verbatim>\<open>undefined\<close> only.\<close>

definition history_entry ::
  "validation_result list \<Rightarrow> jsval \<Rightarrow> nat \<Rightarrow> string \<Rightarrow> error + jsval" where
  "history_entry validationResults metadata now stamp =
     (let md = (if metadata = Undefined then Obj [] else metadata) in
      bindE (get md ''profile'') (\<lambda>profile.
      bindE (get md ''targetUrl'') (\<lambda>targetUrl.
      bindE (get md ''duration'') (\<lambda>duration.
        Inr (Obj
          [(''id'', Str (''run-'' @ show_nat now)),
           (''timestamp'', Str stamp),
           (''profile'', js_or profile (Str ''default'')),
           (''targetUrl'', targetUrl),
           (''duration'', duration),
           (''metrics'', Obj (map (\<lambda>r. (metric r,
               Obj [(''actual'', actual r), (''threshold'', Str (threshold r)),
                    (''passed'', Bool (passed r))])) validationResults)),
           (''passed'', count_num (length (filter (\<lambda>r. passed r) validationResults))),
           (''failed'', count_num (length (filter (\<lambda>r. \<not> passed r) validationResults)))])))))"

text \<open>\<^verbatim>\<open>history.push(entry); if (history.length > 50) history = history.slice(-50);\<close>
  then the file is written and the history returned. \<^verbatim>\<open>push\<close> is a method of arrays
  only.\<close>

definition saveToHistory ::
  "(string \<Rightarrow> jsval option) \<Rightarrow> (jsval \<Rightarrow> string) \<Rightarrow> nat \<Rightarrow> string
     \<Rightarrow> validation_result list \<Rightarrow> jsval \<Rightarrow> disk \<Rightarrow> error + (jsval list \<times> disk)" where
  "saveToHistory json_parse json_stringify now stamp validationResults metadata d =
     bindE (history_entry validationResults metadata now stamp) (\<lambda>entry.
       case load_history json_parse d of
         Arr hs \<Rightarrow>
           (let pushed = hs @ [entry];
                history = (if 50 < length pushed then drop (length pushed - 50) pushed
                           else pushed)
            in if writable d
               then Inr (history, d \<lparr> history_file := Text (json_stringify (Arr history)) \<rparr>)
               else Inl IOError)
       | _ \<Rightarrow> Inl TypeError)"

section \<open>Run comparison and alert severity (\<^verbatim>\<open>generateHtmlReport\<close>)\<close>

record comparison =
  cmp_metric :: string
  current :: jsnum
  previous :: jsnum
  delta :: string
  isImproved :: bool

text \<open>\<^verbatim>\<open>key.includes('Throughput')\<close>\<close>

fun str_includes :: "string \<Rightarrow> string \<Rightarrow> bool" where
  "str_includes [] t = (t = [])"
| "str_includes (c # s) t = (take (length t) (c # s) = t \<or> str_includes s t)"

text \<open>\<^verbatim>\<open>Object.keys(v)\<close> raises on \<^verbatim>\<open>undefined\<close> and \<^verbatim>\<open>null\<close>.\<close>

definition object_keys :: "jsval \<Rightarrow> error + string list" where
  "object_keys v =
     (case v of
        Undefined \<Rightarrow> Inl TypeError
      | Null \<Rightarrow> Inl TypeError
      | _ \<Rightarrow> Inr (map fst (own_props v)))"

text \<open>The body of \<^verbatim>\<open>Object.keys(current.metrics).forEach(key => ...)\<close>: the comparison it
  pushes for one key, if any. The two values are the doubles \<^verbatim>\<open>parseFloat\<close> reads; the
  difference, the quotient and the product of \<^verbatim>\<open>(currVal - prevVal) / prevVal * 100\<close> are
  rounded one after the other.\<close>

definition compare_metric ::
  "(real \<Rightarrow> string) \<Rightarrow> jsval \<Rightarrow> jsval \<Rightarrow> string \<Rightarrow> error + comparison list" where
  "compare_metric nts cur prev key =
     bindE (get prev ''metrics'') (\<lambda>pm.
     bindE (get pm key) (\<lambda>p.
       if truthy p then
         bindE (get cur ''metrics'') (\<lambda>cm.
         bindE (get cm key) (\<lambda>c.
         bindE (get c ''actual'') (\<lambda>ca.
         bindE (get p ''actual'') (\<lambda>pa.
           (let currVal = parseFloat ca; prevVal = parseFloat pa in
            if \<not> isNaN currVal \<and> \<not> isNaN prevVal \<and> prevVal \<noteq> Fin 0 then
              Inr [\<lparr> cmp_metric = key, current = currVal, previous = prevVal,
                     delta = to_fixed nts 1
                       (num_mul (num_div (num_sub currVal prevVal) prevVal) (Fin 100)),
                     isImproved =
                       (if str_includes key ''Throughput'' then num_lt prevVal currVal = Some True
                        else num_lt currVal prevVal = Some True) \<rparr>]
            else Inr [])))))
       else Inr []))"

text \<open>
  \<^verbatim>\<open>generateHtmlReport\<close> reaches the comparison after it has read every record of the
  history for the charts, the profile for the summary, and the endpoints and the checks
  of the metrics for the two detail tables. What these statements render is not
  modelled; that they raise is.
\<close>

text \<open>The chart data: \<^verbatim>\<open>h.timestamp\<close> and \<^verbatim>\<open>Object.keys(h.metrics)\<close> of every record \<^verbatim>\<open>h\<close>
  of the history. The values \<^verbatim>\<open>h.metrics[key]?.actual\<close> that are read after them raise
  nothing more.\<close>

definition chart_data :: "jsval list \<Rightarrow> error + unit" where
  "chart_data history =
     bindE (mapE (\<lambda>h. get h ''timestamp'') history) (\<lambda>labels.
     bindE (mapE (\<lambda>h. bindE (get h ''metrics'') object_keys) history) (\<lambda>metricKeys.
       Inr ()))"

text \<open>The summary: \<^verbatim>\<open>metadata.profile?.toUpperCase() || 'DEFAULT'\<close>. Only a string has the
  method; the call is skipped for \<^verbatim>\<open>undefined\<close> and \<^verbatim>\<open>null\<close>.\<close>

definition summary_insight :: "jsval \<Rightarrow> error + unit" where
  "summary_insight metadata =
     bindE (get metadata ''profile'') (\<lambda>p.
       case p of
         Undefined \<Rightarrow> Inr ()
       | Null \<Rightarrow> Inr ()
       | Str s \<Rightarrow> Inr ()
       | _ \<Rightarrow> Inl TypeError)"

text \<open>\<^verbatim>\<open>v.length\<close> of a value that is neither \<^verbatim>\<open>undefined\<close> nor \<^verbatim>\<open>null\<close>.\<close>

definition js_length :: "jsval \<Rightarrow> jsval" where
  "js_length v =
     (case v of
        Arr xs \<Rightarrow> Num (Fin (of_nat (length xs)))
      | Str s \<Rightarrow> Num (Fin (of_nat (length s)))
      | _ \<Rightarrow> own_prop (own_props v) ''length'')"

text \<open>A detail table,
  \<^verbatim>\<open>if (metadata.k6Metrics && metadata.k6Metrics.rows && metadata.k6Metrics.rows.length > 0)\<close>
  \<^verbatim>\<open>{ ... metadata.k6Metrics.rows.map(row => ...) ... }\<close>: the callback reads the columns
  of every row; only an array has the method \<^verbatim>\<open>map\<close>.\<close>

definition detail_table ::
  "(real \<Rightarrow> string) \<Rightarrow> jsval \<Rightarrow> string \<Rightarrow> string list \<Rightarrow> error + unit" where
  "detail_table nts metadata rows columns =
     bindE (get metadata ''k6Metrics'') (\<lambda>km.
       if truthy km then
         bindE (get km rows) (\<lambda>rs.
           if truthy rs \<and> js_greater nts (js_length rs) (Num (Fin 0)) then
             (case rs of
                Arr xs \<Rightarrow> bindE (mapE (\<lambda>row. mapE (get row) columns) xs) (\<lambda>cells. Inr ())
              | _ \<Rightarrow> Inl TypeError)
           else Inr ())
       else Inr ())"

text \<open>The summary, the table of the endpoints (\<^verbatim>\<open>ep.name\<close>, \<^verbatim>\<open>ep.avgDur\<close>) and the table
  of the checks (\<^verbatim>\<open>ck.passes + ck.fails\<close>, \<^verbatim>\<open>ck.name\<close>).\<close>

definition report_sections :: "(real \<Rightarrow> string) \<Rightarrow> jsval \<Rightarrow> error + unit" where
  "report_sections nts metadata =
     bindE (summary_insight metadata) (\<lambda>summaryInsight.
     bindE (detail_table nts metadata ''endpoints'' [''name'', ''avgDur'']) (\<lambda>endpointHtml.
       detail_table nts metadata ''checksData'' [''passes'', ''fails'', ''name'']))"

text \<open>The comparison of the last two runs, as \<^verbatim>\<open>generateHtmlReport\<close> computes it after
  the statements above; \<open>None\<close> when the history has fewer than two (no comparison table
  is rendered).\<close>

definition comparisons ::
  "(real \<Rightarrow> string) \<Rightarrow> jsval list \<Rightarrow> jsval \<Rightarrow> error + comparison list option" where
  "comparisons nts history metadata =
     bindE (chart_data history) (\<lambda>chartDatasets.
     bindE (report_sections nts metadata) (\<lambda>sections.
       if 2 \<le> length history then
         (let cur = history ! (length history - 1);
              prev = history ! (length history - 2) in
          bindE (get cur ''metrics'') (\<lambda>cm.
          bindE (object_keys cm) (\<lambda>keys.
          bindE (mapE (compare_metric nts cur prev) keys) (\<lambda>cs.
            Inr (Some (concat cs))))))
       else Inr None))"

datatype severity = HEALTHY | WARNING | CRITICAL

text \<open>\<^verbatim>\<open>metadata.slaConfig?.alerts || { critical: {...}, warning: {...} }\<close>\<close>

definition default_alerts :: jsval where
  "default_alerts =
     Obj [(''critical'', Obj [(''p95_response_time_ms'', Num (Fin 2000)),
                              (''max_error_rate_percent'', Num (Fin 10))]),
          (''warning'', Obj [(''p95_response_time_ms'', Num (Fin 800)),
                             (''max_error_rate_percent'', Num (Fin 3))])]"

definition alertConfig :: "jsval \<Rightarrow> error + jsval" where
  "alertConfig metadata =
     bindE (get metadata ''slaConfig'') (\<lambda>c.
     bindE (if c = Undefined \<or> c = Null then Inr Undefined else get c ''alerts'') (\<lambda>a.
       Inr (js_or a default_alerts)))"

text \<open>The alert severity of a run, from its metrics \<open>km\<close> and the alert table: the critical
  tier is tested first, the warning tier in the \<^verbatim>\<open>else if\<close>; \<^verbatim>\<open>||\<close> does not evaluate
  its right operand when the left one holds.\<close>

definition severityLevel :: "(real \<Rightarrow> string) \<Rightarrow> metricset \<Rightarrow> jsval \<Rightarrow> error + severity" where
  "severityLevel nts km alerts =
     bindE (get alerts ''critical'') (\<lambda>crit.
     bindE (get crit ''p95_response_time_ms'') (\<lambda>cp.
     bindE (get crit ''max_error_rate_percent'') (\<lambda>ce.
       if js_greater nts (p95ResponseTime km) cp \<or> js_greater nts (errorRate km) ce
       then Inr CRITICAL
       else
         bindE (get alerts ''warning'') (\<lambda>warn.
         bindE (get warn ''p95_response_time_ms'') (\<lambda>wp.
         bindE (get warn ''max_error_rate_percent'') (\<lambda>we.
           if js_greater nts (p95ResponseTime km) wp \<or> js_greater nts (errorRate km) we
           then Inr WARNING
           else Inr HEALTHY))))))"

section \<open>Worked inputs\<close>

text \<open>The inputs of the validator's tests: metrics within every bound, both
  infrastructure metrics measured, a configuration without profiles.\<close>

definition mockK6Metrics :: metricset where
  "mockK6Metrics =
     \<lparr> p50ResponseTime = Num (Fin 150), p90ResponseTime = Num (Fin 300),
       p95ResponseTime = Num (Fin 400), p99ResponseTime = Num (Fin 800),
       avgResponseTime = Undefined, minResponseTime = Undefined,
       maxResponseTime = Undefined, errorRate = Num (Fin (1 / 2)), throughput = Num (Fin 50),
       totalRequests = Undefined, iterations = Undefined,
       checksData = [], endpoints = [] \<rparr>"

definition mockInfraMetrics :: infra_metrics where
  "mockInfraMetrics = \<lparr> avgCpuUsage = Str ''45.0'', avgMemoryUsage = Str ''60.0'' \<rparr>"

definition mockSlaConfig :: jsval where
  "mockSlaConfig =
     Obj [(''performance'',
            Obj [(''p50_response_time_ms'', Num (Fin 200)),
                 (''p90_response_time_ms'', Num (Fin 400)),
                 (''p95_response_time_ms'', Num (Fin 500)),
                 (''p99_response_time_ms'', Num (Fin 1000)),
                 (''max_error_rate_percent'', Num (Fin 1)),
                 (''min_throughput_rps'', Num (Fin 40))]),
          (''infrastructure'',
            Obj [(''max_cpu_usage_percent'', Num (Fin 80)),
                 (''max_memory_usage_percent'', Num (Fin 85))]),
          (''profiles'', Obj [])]"

text \<open>What the validator returns on them.\<close>

definition mockResults :: "validation_result list" where
  "mockResults =
     [\<lparr>metric = ''P50 Response Time (ms)'', actual = Str ''150.00'',
         threshold = ''<= 200'', passed = True\<rparr>,
      \<lparr>metric = ''P90 Response Time (ms)'', actual = Str ''300.00'',
         threshold = ''<= 400'', passed = True\<rparr>,
      \<lparr>metric = ''P95 Response Time (ms)'', actual = Str ''400.00'',
         threshold = ''<= 500'', passed = True\<rparr>,
      \<lparr>metric = ''P99 Response Time (ms)'', actual = Str ''800.00'',
         threshold = ''<= 1000'', passed = True\<rparr>,
      \<lparr>metric = ''Error Rate (%)'', actual = Str ''0.50'',
         threshold = ''<= 1'', passed = True\<rparr>,
      \<lparr>metric = ''Throughput (req/s)'', actual = Str ''50.00'',
         threshold = ''>= 40'', passed = True\<rparr>,
      \<lparr>metric = ''CPU Usage (%)'', actual = Str ''45.0'',
         threshold = ''<= 80'', passed = True\<rparr>,
      \<lparr>metric = ''Memory Usage (%)'', actual = Str ''60.0'',
         threshold = ''<= 85'', passed = True\<rparr>]"

definition mockInfrastructure :: jsval where
  "mockInfrastructure =
     Obj [(''max_cpu_usage_percent'', Num (Fin 80)),
          (''max_memory_usage_percent'', Num (Fin 85))]"

text \<open>A configuration without the two mandatory thresholds.\<close>

definition bareSlaConfig :: jsval where
  "bareSlaConfig =
     Obj [(''performance'', Obj [(''p50_response_time_ms'', Num (Fin 200))]),
          (''infrastructure'', mockInfrastructure),
          (''profiles'', Obj [])]"

text \<open>A configuration with a profile \<^verbatim>\<open>stress\<close> that overrides the P95 bound and adds a
  P99 bound; the global P50 bound is 0, there is no P90 bound and no throughput bound.\<close>

definition layeredSlaConfig :: jsval where
  "layeredSlaConfig =
     Obj [(''performance'',
            Obj [(''p50_response_time_ms'', Num (Fin 0)),
                 (''p95_response_time_ms'', Num (Fin 500)),
                 (''max_error_rate_percent'', Num (Fin 1))]),
          (''infrastructure'', mockInfrastructure),
          (''profiles'',
            Obj [(''stress'',
                   Obj [(''p95_response_time_ms'', Num (Fin 1500)),
                        (''p99_response_time_ms'', Num (Fin 2500))])])]"

text \<open>A configuration whose \<^verbatim>\<open>smoke\<close> profile sets the P90 bound and the minimum
  throughput to 0.\<close>

definition smokeSlaConfig :: jsval where
  "smokeSlaConfig =
     Obj [(''performance'',
            Obj [(''p90_response_time_ms'', Num (Fin 250)),
                 (''p95_response_time_ms'', Num (Fin 500)),
                 (''max_error_rate_percent'', Num (Fin 1)),
                 (''min_throughput_rps'', Num (Fin 40))]),
          (''infrastructure'', mockInfrastructure),
          (''profiles'',
            Obj [(''smoke'',
                   Obj [(''p90_response_time_ms'', Num (Fin 0)),
                        (''min_throughput_rps'', Num (Fin 0))])])]"

text \<open>The configuration of the tests with a minimum throughput of 0, and without one.\<close>

definition zeroThroughputConfig :: jsval where
  "zeroThroughputConfig =
     Obj [(''performance'',
            Obj [(''p95_response_time_ms'', Num (Fin 500)),
                 (''max_error_rate_percent'', Num (Fin 1)),
                 (''min_throughput_rps'', Num (Fin 0))]),
          (''infrastructure'', mockInfrastructure),
          (''profiles'', Obj [])]"

definition noThroughputConfig :: jsval where
  "noThroughputConfig =
     Obj [(''performance'',
            Obj [(''p95_response_time_ms'', Num (Fin 500)),
                 (''max_error_rate_percent'', Num (Fin 1))]),
          (''infrastructure'', mockInfrastructure),
          (''profiles'', Obj [])]"

definition unmeasuredInfra :: infra_metrics where
  "unmeasuredInfra = \<lparr> avgCpuUsage = Str ''N/A'', avgMemoryUsage = Str ''N/A'' \<rparr>"

definition layeredResults :: "validation_result list" where
  "layeredResults =
     [\<lparr>metric = ''P50 Response Time (ms)'', actual = Str ''150.00'',
        threshold = ''<= 200'', passed = True\<rparr>,
      \<lparr>metric = ''P90 Response Time (ms)'', actual = Str ''300.00'',
        threshold = ''<= 400'', passed = True\<rparr>,
      \<lparr>metric = ''P95 Response Time (ms)'', actual = Str ''400.00'',
        threshold = ''<= 1500'', passed = True\<rparr>,
      \<lparr>metric = ''P99 Response Time (ms)'', actual = Str ''800.00'',
        threshold = ''<= 2500'', passed = True\<rparr>,
      \<lparr>metric = ''Error Rate (%)'', actual = Str ''0.50'',
        threshold = ''<= 1'', passed = True\<rparr>]"

definition zeroThroughputResults :: "validation_result list" where
  "zeroThroughputResults =
     [\<lparr>metric = ''P50 Response Time (ms)'', actual = Str ''150.00'',
        threshold = ''<= 200'', passed = True\<rparr>,
      \<lparr>metric = ''P90 Response Time (ms)'', actual = Str ''300.00'',
        threshold = ''<= 400'', passed = True\<rparr>,
      \<lparr>metric = ''P95 Response Time (ms)'', actual = Str ''400.00'',
        threshold = ''<= 500'', passed = True\<rparr>,
      \<lparr>metric = ''P99 Response Time (ms)'', actual = Str ''800.00'',
        threshold = ''<= 1000'', passed = True\<rparr>,
      \<lparr>metric = ''Error Rate (%)'', actual = Str ''0.50'',
        threshold = ''<= 1'', passed = True\<rparr>,
      \<lparr>metric = ''CPU Usage (%)'', actual = Str ''45.0'',
         threshold = ''<= 80'', passed = True\<rparr>,
      \<lparr>metric = ''Memory Usage (%)'', actual = Str ''60.0'',
         threshold = ''<= 85'', passed = True\<rparr>]"

text \<open>The summary of the extractor's tests, with both an \<^verbatim>\<open>errors\<close> metric (2 %) and an
  \<^verbatim>\<open>http_req_failed\<close> metric (5 %), and what the extractor returns on it.\<close>








text \<open>A stored history of 50 records, the disk that holds it, and the functions that
  stand for \<^verbatim>\<open>JSON.parse\<close> and \<^verbatim>\<open>JSON.stringify\<close> on it.\<close>

definition fullHistory :: "jsval list" where
  "fullHistory = map (\<lambda>n. Obj [(''id'', Str (''run-'' @ show_nat n))]) [1 ..< 51]"

definition storedDisk :: disk where
  "storedDisk = \<lparr> history_file = Text ''stored'', writable = True \<rparr>"

definition parseStored :: "string \<Rightarrow> jsval option" where
  "parseStored t = (if t = ''stored'' then Some (Arr fullHistory) else None)"

definition newEntry :: jsval where
  "newEntry =
     Obj [(''id'', Str ''run-51''), (''timestamp'', Str ''2026-01-01T00:00:00.000Z''),
          (''profile'', Str ''default''), (''targetUrl'', Undefined),
          (''duration'', Undefined), (''metrics'', Obj []),
          (''passed'', Num (Fin 0)), (''failed'', Num (Fin 0))]"

text \<open>Metrics with a P95 of 2500 ms, above both tiers of the default alert table.\<close>

definition slowMetrics :: metricset where
  "slowMetrics = initial_metrics \<lparr> p95ResponseTime := Num (Fin 2500) \<rparr>"

text \<open>Two runs: P95 from 100 to 120 ms, throughput from 10 to 12 requests per second,
  error rate from 0 to 1 %, P50 from 8 to 8.02 ms; and the metadata of the second run.\<close>

definition previousMetrics :: jsval where
  "previousMetrics =
     Obj [(''P50 Response Time (ms)'', Obj [(''actual'', Str ''8.00'')]),
          (''P95 Response Time (ms)'', Obj [(''actual'', Str ''100.00'')]),
          (''Error Rate (%)'', Obj [(''actual'', Str ''0.00'')]),
          (''Throughput (req/s)'', Obj [(''actual'', Str ''10.00'')])]"

definition currentMetrics :: jsval where
  "currentMetrics =
     Obj [(''P50 Response Time (ms)'', Obj [(''actual'', Str ''8.02'')]),
          (''P95 Response Time (ms)'', Obj [(''actual'', Str ''120.00'')]),
          (''Error Rate (%)'', Obj [(''actual'', Str ''1.00'')]),
          (''Throughput (req/s)'', Obj [(''actual'', Str ''12.00'')])]"

definition twoRuns :: "jsval list" where
  "twoRuns = [Obj [(''id'', Str ''run-1''), (''timestamp'', Str ''2026-01-01T00:00:00.000Z''),
                   (''metrics'', previousMetrics)],
              Obj [(''id'', Str ''run-2''), (''timestamp'', Str ''2026-01-02T00:00:00.000Z''),
                   (''metrics'', currentMetrics)]]"

definition runMetadata :: jsval where
  "runMetadata =
     Obj [(''profile'', Str ''load''),
          (''k6Metrics'',
            Obj [(''p50ResponseTime'', Num (Fin 8)),
                 (''endpoints'',
                   Arr [Obj [(''name'', Str ''GET /posts (Browse/List)''),
                             (''avgDur'', Str ''8.10'')]]),
                 (''checksData'',
                   Arr [Obj [(''name'', Str ''status is 200''), (''passes'', Num (Fin 95)),
                             (''fails'', Num (Fin 5))]])])]"

text \<open>The double of the literal \<^verbatim>\<open>8.02\<close>, a little below \<open>802 / 100\<close>.\<close>

definition p50Value :: real where
  "p50Value = 2257429313219461 / 2 ^ 48"

definition twoRunsComparison :: "comparison list" where
  "twoRunsComparison =
     [\<lparr> cmp_metric = ''P50 Response Time (ms)'', current = Fin p50Value, previous = Fin 8,
        delta = ''0.2'', isImproved = False \<rparr>,
      \<lparr> cmp_metric = ''P95 Response Time (ms)'', current = Fin 120, previous = Fin 100,
        delta = ''20.0'', isImproved = False \<rparr>,
      \<lparr> cmp_metric = ''Throughput (req/s)'', current = Fin 12, previous = Fin 10,
        delta = ''20.0'', isImproved = True \<rparr>]"

section \<open>Facts about the value model\<close>

lemma bindE_Inr [simp]: "bindE (Inr x) f = f x"
  by (simp add: bindE_def)

lemma bindE_Inl [simp]: "bindE (Inl e) f = Inl e"
  by (simp add: bindE_def)

lemma bindE_eq_Inr: "bindE m f = Inr y \<longleftrightarrow> (\<exists>x. m = Inr x \<and> f x = Inr y)"
  by (cases m) simp_all

lemma mapE_Inr: "mapE f xs = Inr ys \<Longrightarrow> list_all2 (\<lambda>x y. f x = Inr y) xs ys"
proof (induction xs arbitrary: ys)
  case Nil
  then show ?case by simp
next
  case (Cons x xs)
  from Cons.prems obtain y ys' where "f x = Inr y" "mapE f xs = Inr ys'" "ys = y # ys'"
    by (auto simp: bindE_eq_Inr)
  with Cons.IH show ?case by simp
qed

lemma mapE_returns: "(\<And>x. x \<in> set xs \<Longrightarrow> \<exists>y. f x = Inr y) \<Longrightarrow> \<exists>ys. mapE f xs = Inr ys"
proof (induction xs)
  case Nil
  then show ?case by simp
next
  case (Cons x xs)
  then obtain y ys where "f x = Inr y" "mapE f xs = Inr ys"
    by (metis list.set_intros(1) list.set_intros(2))
  then show ?case by simp
qed

lemma show_nat_lt10: "n < 10 \<Longrightarrow> show_nat n = [digit_char n]"
  by (simp add: show_nat.simps)

lemma show_nat_ge10:
  "\<not> n < 10 \<Longrightarrow> show_nat n = show_nat (n div 10) @ [digit_char (n mod 10)]"
  by (subst show_nat.simps) simp

lemma digit_val_digit_char: "d < 10 \<Longrightarrow> digit_val (digit_char d) = d"
proof -
  assume "d < 10"
  then have "d \<in> {0, 1, 2, 3, 4, 5, 6, 7, 8, 9}" by auto
  then show ?thesis by (auto simp: digit_char_def digit_val_def)
qed

lemma digits_value_snoc: "digits_value (ds @ [c]) = 10 * digits_value ds + digit_val c"
  by (simp add: digits_value_def)

lemma digits_value_show_nat: "digits_value (show_nat n) = n"
proof (induction n rule: show_nat.induct)
  case (1 n)
  show ?case
  proof (cases "n < 10")
    case True
    then show ?thesis
      by (simp add: show_nat_lt10 digits_value_def digit_val_digit_char)
  next
    case False
    with "1" have "digits_value (show_nat (n div 10)) = n div 10" by simp
    with False show ?thesis
      by (simp add: show_nat_ge10 digits_value_snoc digit_val_digit_char)
  qed
qed

lemma show_nat_inj: "show_nat i = show_nat j \<Longrightarrow> i = j"
  by (metis digits_value_show_nat)

lemma map_of_insert_index:
  "k \<notin> fst ` set ps \<Longrightarrow> map_of (insert_index k v ps) = (map_of ps)(k \<mapsto> v)"
proof (induction ps)
  case Nil
  then show ?case by simp
next
  case (Cons p ps)
  then show ?case by (cases p) (auto simp: fun_upd_twist)
qed

lemma map_of_put: "map_of (put ps k v) = (map_of ps)(k \<mapsto> v)"
  by (simp add: put_def map_of_insert_index update_conv')

lemma put_all_Cons: "put_all ps (q # qs) = put_all (put ps (fst q) (snd q)) qs"
  by (simp add: put_all_def)

lemma map_of_put_all: "map_of (put_all ps qs) = map_of ps ++ map_of (rev qs)"
proof (induction qs arbitrary: ps)
  case Nil
  then show ?case by (simp add: put_all_def)
next
  case (Cons q qs)
  then show ?case
    by (cases q)
      (simp add: put_all_Cons map_of_put map_add_def fun_eq_iff split: option.splits)
qed

lemma keys_insert_index: "fst ` set (insert_index k v ps) = insert k (fst ` set ps)"
  by (induction ps) auto

lemma distinct_insert_index:
  "k \<notin> fst ` set ps \<Longrightarrow> distinct (map fst ps) \<Longrightarrow> distinct (map fst (insert_index k v ps))"
proof (induction ps)
  case Nil
  then show ?case by simp
next
  case (Cons p ps)
  then show ?case
    using keys_insert_index [of k v ps] by (cases p) (auto simp: image_iff)
qed

lemma distinct_put: "distinct (map fst ps) \<Longrightarrow> distinct (map fst (put ps k v))"
  by (simp add: put_def distinct_insert_index distinct_update)

lemma distinct_put_all: "distinct (map fst ps) \<Longrightarrow> distinct (map fst (put_all ps qs))"
proof (induction qs arbitrary: ps)
  case Nil
  then show ?case by (simp add: put_all_def)
next
  case (Cons q qs)
  then show ?case by (simp add: put_all_Cons distinct_put)
qed

lemma distinct_own_props: "distinct (map fst (own_props v))"
proof (cases v)
  case (Obj ps)
  then show ?thesis by (simp add: own_props_def distinct_put_all)
next
  case (Arr xs)
  have "inj_on show_nat (set [0 ..< length xs])"
    by (rule inj_onI) (rule show_nat_inj)
  then show ?thesis
    using Arr by (simp add: own_props_def comp_def distinct_map)
next
  case (Str s)
  have "inj_on show_nat (set [0 ..< length s])"
    by (rule inj_onI) (rule show_nat_inj)
  then show ?thesis
    using Str by (simp add: own_props_def comp_def distinct_map)
qed (simp_all add: own_props_def)

lemma map_of_rev_distinct: "distinct (map fst xs) \<Longrightarrow> map_of (rev xs) = map_of xs"
  by (subst map_of_inject_set) (simp_all add: rev_map [symmetric])

lemma map_of_spread2: "map_of (spread2 a b) = map_of (own_props a) ++ map_of (own_props b)"
  by (simp add: spread2_def map_of_put_all map_of_rev_distinct distinct_own_props)

lemma own_prop_spread2:
  "own_prop (spread2 a b) k =
     (case map_of (own_props b) k of Some v \<Rightarrow> v | None \<Rightarrow> own_prop (own_props a) k)"
  by (simp add: own_prop_def map_of_spread2 map_add_def split: option.splits)

lemma get_Inr: "v \<noteq> Undefined \<Longrightarrow> v \<noteq> Null \<Longrightarrow> get v k = Inr (own_prop (own_props v) k)"
  by (cases v) (simp_all add: get_def)

lemma get_eq_Inr: "get v k = Inr x \<longleftrightarrow> v \<noteq> Undefined \<and> v \<noteq> Null \<and> x = own_prop (own_props v) k"
  by (cases v) (auto simp: get_def)

lemma truthy_not_nullish: "truthy v \<Longrightarrow> v \<noteq> Undefined \<and> v \<noteq> Null"
  by (auto simp: truthy_def)

lemma num_ops_Fin:
  "num_sub (Fin x) (Fin y) = round_double (x - y)"
  "y \<noteq> 0 \<Longrightarrow> num_div (Fin a) (Fin y) = round_double (a / y)"
  "num_mul (Fin a) (Fin b) = round_double (a * b)"
  "num_lt (Fin a) (Fin b) = Some (a < b)"
  by (simp_all add: num_sub_def num_div_def num_mul_def num_lt_def)

lemma js_greater_Fin: "js_greater nts (Num (Fin a)) (Num (Fin b)) = (b < a)"
  by (simp add: js_greater_def js_lt_def to_primitive_def num_lt_def)

lemma js_le_Num_Undefined: "js_le nts (Num n) Undefined = False"
  by (simp add: js_le_def js_lt_def to_primitive_def num_lt_def)

text \<open>Unfolding sets to evaluate the programs on given inputs.\<close>

lemmas obj_eval = get_def own_props_def own_prop_def put_all_def put_def is_index_def
  is_digit_def spread2_def js_or_def truthy_def

lemmas num_eval = to_fixed_def show_int_def show_nat_lt10 show_nat_ge10 digit_char_def
  Let_def num_to_string_def

lemmas cmp_eval = js_le_def js_ge_def js_lt_def js_greater_def js_less_def to_primitive_def
  num_lt_def

lemmas round_eval = round_double_def round_magnitude_def round_to_def binade_def
  round_half_even_def half_even_def pow2_def

text \<open>Integers that the worked inputs read or compute: each is a double.\<close>

lemma exact_doubles:
  "round_double 0 = Fin 0" "round_double 1 = Fin 1" "round_double 2 = Fin 2"
  "round_double 8 = Fin 8" "round_double 10 = Fin 10" "round_double 12 = Fin 12"
  "round_double 20 = Fin 20" "round_double 45 = Fin 45" "round_double 60 = Fin 60"
  "round_double 100 = Fin 100" "round_double 120 = Fin 120"
  by (simp_all add: round_eval)

lemmas parse_eval = parseFloat_str_def scan_signed_def scan_unsigned_def scan_exponent_def
  is_space_def is_digit_def digits_value_def digit_val_def pow10_def

section \<open>Properties of the SLA validator\<close>

lemma le_result_eq_Inr:
  "le_result nts name v b = Inr r \<longleftrightarrow>
     (\<exists>n. v = Num n \<and> r = \<lparr> metric = name, actual = Str (to_fixed nts 2 n),
        threshold = ''<= '' @ to_string nts b, passed = js_le nts v b \<rparr>)"
  by (cases v) (auto simp: le_result_def toFixed_def)

lemma ge_result_eq_Inr:
  "ge_result nts name v b = Inr r \<longleftrightarrow>
     (\<exists>n. v = Num n \<and> r = \<lparr> metric = name, actual = Str (to_fixed nts 2 n),
        threshold = ''>= '' @ to_string nts b, passed = js_ge nts v b \<rparr>)"
  by (cases v) (auto simp: ge_result_def toFixed_def)

lemma infra_result_eq_Inr:
  "infra_result nts name v infraSla key = Inr r \<longleftrightarrow>
     (\<exists>b. get infraSla key = Inr b \<and> r = \<lparr> metric = name, actual = v,
        threshold = ''<= '' @ to_string nts b, passed = js_le nts (Num (parseFloat v)) b \<rparr>)"
  by (auto simp: infra_result_def bindE_eq_Inr)

lemma le_result_Num:
  "le_result nts name (Num n) b = Inr \<lparr> metric = name, actual = Str (to_fixed nts 2 n),
        threshold = ''<= '' @ to_string nts b, passed = js_le nts (Num n) b \<rparr>"
  by (simp add: le_result_def toFixed_def)

lemma ge_result_Num:
  "ge_result nts name (Num n) b = Inr \<lparr> metric = name, actual = Str (to_fixed nts 2 n),
        threshold = ''>= '' @ to_string nts b, passed = js_ge nts (Num n) b \<rparr>"
  by (simp add: ge_result_def toFixed_def)

text \<open>The shape of every list the validator returns.\<close>

lemma validateAgainstSLA_Inr:
  assumes "validateAgainstSLA nts k6 infra runProfile slaConfig = Inr rs"
  obtains sla infraSla r50 r90 r95 r99 rerr rtp rcpu rmem where
    "performanceSla slaConfig runProfile = Inr sla"
    "get slaConfig ''infrastructure'' = Inr infraSla"
    "le_result nts ''P50 Response Time (ms)'' (p50ResponseTime k6) (p50_bound sla) = Inr r50"
    "le_result nts ''P90 Response Time (ms)'' (p90ResponseTime k6) (p90_bound sla) = Inr r90"
    "le_result nts ''P95 Response Time (ms)'' (p95ResponseTime k6) (p95_bound sla) = Inr r95"
    "le_result nts ''P99 Response Time (ms)'' (p99ResponseTime k6) (p99_bound sla) = Inr r99"
    "le_result nts ''Error Rate (%)'' (errorRate k6) (error_rate_bound sla) = Inr rerr"
    "if truthy (throughput_bound sla)
     then \<exists>r. ge_result nts ''Throughput (req/s)'' (throughput k6) (throughput_bound sla) = Inr r
            \<and> rtp = [r]
     else rtp = []"
    "if avgCpuUsage infra \<noteq> Str ''N/A''
     then \<exists>r. infra_result nts ''CPU Usage (%)'' (avgCpuUsage infra) infraSla
                 ''max_cpu_usage_percent'' = Inr r \<and> rcpu = [r]
     else rcpu = []"
    "if avgMemoryUsage infra \<noteq> Str ''N/A''
     then \<exists>r. infra_result nts ''Memory Usage (%)'' (avgMemoryUsage infra) infraSla
                 ''max_memory_usage_percent'' = Inr r \<and> rmem = [r]
     else rmem = []"
    "rs = [r50, r90, r95, r99, rerr] @ rtp @ rcpu @ rmem"
proof -
  from assms obtain sla infraSla r50 r90 r95 r99 rerr rtp rcpu rmem where
    1: "performanceSla slaConfig runProfile = Inr sla"
    and 2: "get slaConfig ''infrastructure'' = Inr infraSla"
    and 3: "le_result nts ''P50 Response Time (ms)'' (p50ResponseTime k6) (p50_bound sla) = Inr r50"
    and 4: "le_result nts ''P90 Response Time (ms)'' (p90ResponseTime k6) (p90_bound sla) = Inr r90"
    and 5: "le_result nts ''P95 Response Time (ms)'' (p95ResponseTime k6) (p95_bound sla) = Inr r95"
    and 6: "le_result nts ''P99 Response Time (ms)'' (p99ResponseTime k6) (p99_bound sla) = Inr r99"
    and 7: "le_result nts ''Error Rate (%)'' (errorRate k6) (error_rate_bound sla) = Inr rerr"
    and 8: "(if truthy (throughput_bound sla)
            then bindE (ge_result nts ''Throughput (req/s)'' (throughput k6)
                          (throughput_bound sla)) (\<lambda>r. Inr [r])
            else Inr []) = Inr rtp"
    and 9: "(if avgCpuUsage infra \<noteq> Str ''N/A''
            then bindE (infra_result nts ''CPU Usage (%)'' (avgCpuUsage infra) infraSla
                          ''max_cpu_usage_percent'') (\<lambda>r. Inr [r])
            else Inr []) = Inr rcpu"
    and 10: "(if avgMemoryUsage infra \<noteq> Str ''N/A''
            then bindE (infra_result nts ''Memory Usage (%)'' (avgMemoryUsage infra) infraSla
                          ''max_memory_usage_percent'') (\<lambda>r. Inr [r])
            else Inr []) = Inr rmem"
    and 11: "rs = [r50, r90, r95, r99, rerr] @ rtp @ rcpu @ rmem"
    unfolding validateAgainstSLA_def bindE_eq_Inr by blast
  from 8 have h8: "if truthy (throughput_bound sla)
     then \<exists>r. ge_result nts ''Throughput (req/s)'' (throughput k6) (throughput_bound sla) = Inr r
            \<and> rtp = [r]
     else rtp = []"
    by (auto simp: bindE_eq_Inr split: if_splits)
  from 9 have h9: "if avgCpuUsage infra \<noteq> Str ''N/A''
     then \<exists>r. infra_result nts ''CPU Usage (%)'' (avgCpuUsage infra) infraSla
                 ''max_cpu_usage_percent'' = Inr r \<and> rcpu = [r]
     else rcpu = []"
    by (auto simp: bindE_eq_Inr split: if_splits)
  from 10 have h10: "if avgMemoryUsage infra \<noteq> Str ''N/A''
     then \<exists>r. infra_result nts ''Memory Usage (%)'' (avgMemoryUsage infra) infraSla
                 ''max_memory_usage_percent'' = Inr r \<and> rmem = [r]
     else rmem = []"
    by (auto simp: bindE_eq_Inr split: if_splits)
  from 1 2 3 4 5 6 7 h8 h9 h10 11 show thesis by (rule that)
qed

text \<open>The validator returns whenever the metrics it formats are numbers and the
  configuration has its three sections; no bound needs to be there.\<close>

lemma validateAgainstSLA_returns:
  assumes sla: "performanceSla slaConfig runProfile = Inr sla"
    and infra: "get slaConfig ''infrastructure'' = Inr infraSla"
      "infraSla \<noteq> Undefined" "infraSla \<noteq> Null"
    and nums: "p50ResponseTime k6 = Num n50" "p90ResponseTime k6 = Num n90"
      "p95ResponseTime k6 = Num n95" "p99ResponseTime k6 = Num n99"
      "errorRate k6 = Num nerr" "throughput k6 = Num ntp"
  shows "\<exists>rest. validateAgainstSLA nts k6 infraMetrics runProfile slaConfig =
     Inr ([\<lparr> metric = ''P50 Response Time (ms)'', actual = Str (to_fixed nts 2 n50),
             threshold = ''<= '' @ to_string nts (p50_bound sla),
             passed = js_le nts (Num n50) (p50_bound sla) \<rparr>,
           \<lparr> metric = ''P90 Response Time (ms)'', actual = Str (to_fixed nts 2 n90),
             threshold = ''<= '' @ to_string nts (p90_bound sla),
             passed = js_le nts (Num n90) (p90_bound sla) \<rparr>,
           \<lparr> metric = ''P95 Response Time (ms)'', actual = Str (to_fixed nts 2 n95),
             threshold = ''<= '' @ to_string nts (p95_bound sla),
             passed = js_le nts (Num n95) (p95_bound sla) \<rparr>,
           \<lparr> metric = ''P99 Response Time (ms)'', actual = Str (to_fixed nts 2 n99),
             threshold = ''<= '' @ to_string nts (p99_bound sla),
             passed = js_le nts (Num n99) (p99_bound sla) \<rparr>,
           \<lparr> metric = ''Error Rate (%)'', actual = Str (to_fixed nts 2 nerr),
             threshold = ''<= '' @ to_string nts (error_rate_bound sla),
             passed = js_le nts (Num nerr) (error_rate_bound sla) \<rparr>] @ rest)"
  unfolding validateAgainstSLA_def
  by (simp add: sla infra nums le_result_Num ge_result_Num infra_result_def get_Inr)

text \<open>The validator reads the resolved thresholds through its six bounds only, and the
  throughput bound through its truthiness when that is false.\<close>

lemma validateAgainstSLA_same_bounds:
  assumes "performanceSla slaConfig runProfile = Inr sla"
    and "performanceSla slaConfig' runProfile' = Inr sla'"
    and "p50_bound sla' = p50_bound sla" "p90_bound sla' = p90_bound sla"
    and "p95_bound sla' = p95_bound sla" "p99_bound sla' = p99_bound sla"
    and "error_rate_bound sla' = error_rate_bound sla"
    and "\<not> truthy (throughput_bound sla)" "\<not> truthy (throughput_bound sla')"
    and "get slaConfig' ''infrastructure'' = get slaConfig ''infrastructure''"
  shows "validateAgainstSLA nts k6 infra runProfile' slaConfig' =
         validateAgainstSLA nts k6 infra runProfile slaConfig"
  unfolding validateAgainstSLA_def by (simp add: assms)

lemma nth_results:
  "([r50, r90, r95, r99, rerr] @ rest) ! 0 = r50"
  "([r50, r90, r95, r99, rerr] @ rest) ! 1 = r90"
  "([r50, r90, r95, r99, rerr] @ rest) ! 2 = r95"
  "([r50, r90, r95, r99, rerr] @ rest) ! 3 = r99"
  "([r50, r90, r95, r99, rerr] @ rest) ! 4 = rerr"
  by (simp_all add: numeral_2_eq_2 numeral_3_eq_3 eval_nat_numeral)

text \<open>The names of the metrics of every list the validator returns.\<close>

lemma result_metric_names:
  assumes run: "validateAgainstSLA nts k6 infra runProfile slaConfig = Inr rs"
    and sla: "performanceSla slaConfig runProfile = Inr sla"
  shows "map metric rs =
     [''P50 Response Time (ms)'', ''P90 Response Time (ms)'', ''P95 Response Time (ms)'',
      ''P99 Response Time (ms)'', ''Error Rate (%)'']
     @ (if truthy (throughput_bound sla) then [''Throughput (req/s)''] else [])
     @ (if avgCpuUsage infra \<noteq> Str ''N/A'' then [''CPU Usage (%)''] else [])
     @ (if avgMemoryUsage infra \<noteq> Str ''N/A'' then [''Memory Usage (%)''] else [])"
proof -
  from run obtain sla' infraSla r50 r90 r95 r99 rerr rtp rcpu rmem where
    s: "performanceSla slaConfig runProfile = Inr sla'"
    and r: "le_result nts ''P50 Response Time (ms)'' (p50ResponseTime k6) (p50_bound sla') = Inr r50"
      "le_result nts ''P90 Response Time (ms)'' (p90ResponseTime k6) (p90_bound sla') = Inr r90"
      "le_result nts ''P95 Response Time (ms)'' (p95ResponseTime k6) (p95_bound sla') = Inr r95"
      "le_result nts ''P99 Response Time (ms)'' (p99ResponseTime k6) (p99_bound sla') = Inr r99"
      "le_result nts ''Error Rate (%)'' (errorRate k6) (error_rate_bound sla') = Inr rerr"
    and tp: "if truthy (throughput_bound sla')
     then \<exists>r. ge_result nts ''Throughput (req/s)'' (throughput k6) (throughput_bound sla') = Inr r
            \<and> rtp = [r]
     else rtp = []"
    and cpu: "if avgCpuUsage infra \<noteq> Str ''N/A''
     then \<exists>r. infra_result nts ''CPU Usage (%)'' (avgCpuUsage infra) infraSla
                 ''max_cpu_usage_percent'' = Inr r \<and> rcpu = [r]
     else rcpu = []"
    and mem: "if avgMemoryUsage infra \<noteq> Str ''N/A''
     then \<exists>r. infra_result nts ''Memory Usage (%)'' (avgMemoryUsage infra) infraSla
                 ''max_memory_usage_percent'' = Inr r \<and> rmem = [r]
     else rmem = []"
    and rs: "rs = [r50, r90, r95, r99, rerr] @ rtp @ rcpu @ rmem"
    by (rule validateAgainstSLA_Inr)
  from s sla have [simp]: "sla' = sla" by simp
  from r have five: "map metric [r50, r90, r95, r99, rerr] =
     [''P50 Response Time (ms)'', ''P90 Response Time (ms)'', ''P95 Response Time (ms)'',
      ''P99 Response Time (ms)'', ''Error Rate (%)'']"
    by (auto simp: le_result_eq_Inr)
  from tp have m_tp: "map metric rtp =
      (if truthy (throughput_bound sla) then [''Throughput (req/s)''] else [])"
    by (auto simp: ge_result_eq_Inr split: if_splits)
  from cpu have m_cpu: "map metric rcpu =
      (if avgCpuUsage infra \<noteq> Str ''N/A'' then [''CPU Usage (%)''] else [])"
    by (auto simp: infra_result_eq_Inr split: if_splits)
  from mem have m_mem: "map metric rmem =
      (if avgMemoryUsage infra \<noteq> Str ''N/A'' then [''Memory Usage (%)''] else [])"
    by (auto simp: infra_result_eq_Inr split: if_splits)
  have "map metric rs = map metric [r50, r90, r95, r99, rerr] @ map metric rtp
      @ map metric rcpu @ map metric rmem"
    unfolding rs by simp
  then show ?thesis
    unfolding five m_tp m_cpu m_mem .
qed

lemma throughput_result_metric:
  assumes run: "validateAgainstSLA nts k6 infra runProfile slaConfig = Inr rs"
    and sla: "performanceSla slaConfig runProfile = Inr sla"
  shows "(''Throughput (req/s)'' \<in> metric ` set rs) = truthy (throughput_bound sla)"
proof -
  have "metric ` set rs = set (map metric rs)" by simp
  also have "\<dots> = set ([''P50 Response Time (ms)'', ''P90 Response Time (ms)'', ''P95 Response Time (ms)'',
      ''P99 Response Time (ms)'', ''Error Rate (%)'']
     @ (if truthy (throughput_bound sla) then [''Throughput (req/s)''] else [])
     @ (if avgCpuUsage infra \<noteq> Str ''N/A'' then [''CPU Usage (%)''] else [])
     @ (if avgMemoryUsage infra \<noteq> Str ''N/A'' then [''Memory Usage (%)''] else []))"
    by (simp only: result_metric_names [OF run sla])
  finally show ?thesis by simp
qed

lemmas validator_eval = validateAgainstSLA_def le_result_def ge_result_def infra_result_def
  toFixed_def p50_bound_def p90_bound_def p95_bound_def p99_bound_def error_rate_bound_def
  throughput_bound_def mockK6Metrics_def mockInfraMetrics_def unmeasuredInfra_def
  mockInfrastructure_def

lemma mock_sla:
  "performanceSla mockSlaConfig ''default'' =
     Inr [(''p50_response_time_ms'', Num (Fin 200)),
                 (''p90_response_time_ms'', Num (Fin 400)),
                 (''p95_response_time_ms'', Num (Fin 500)),
                 (''p99_response_time_ms'', Num (Fin 1000)),
                 (''max_error_rate_percent'', Num (Fin 1)),
                 (''min_throughput_rps'', Num (Fin 40))]"
  by (simp add: performanceSla_def mockSlaConfig_def obj_eval)

lemma mock_run:
  "validateAgainstSLA show_int mockK6Metrics mockInfraMetrics ''default'' mockSlaConfig =
     Inr mockResults"
  unfolding validateAgainstSLA_def mock_sla
  by (simp add: mockResults_def mockSlaConfig_def mockK6Metrics_def mockInfraMetrics_def
      le_result_def ge_result_def infra_result_def toFixed_def
      p50_bound_def p90_bound_def p95_bound_def p99_bound_def error_rate_bound_def
      throughput_bound_def obj_eval num_eval cmp_eval parse_eval exact_doubles)

lemma bare_sla:
  "performanceSla bareSlaConfig ''default'' = Inr [(''p50_response_time_ms'', Num (Fin 200))]"
  by (simp add: performanceSla_def bareSlaConfig_def obj_eval)

lemma bare_infrastructure: "get bareSlaConfig ''infrastructure'' = Inr mockInfrastructure"
  by (simp add: bareSlaConfig_def obj_eval)

lemma layered_performance:
  "get layeredSlaConfig ''performance'' =
     Inr (Obj [(''p50_response_time_ms'', Num (Fin 0)),
               (''p95_response_time_ms'', Num (Fin 500)),
               (''max_error_rate_percent'', Num (Fin 1))])"
  by (simp add: layeredSlaConfig_def obj_eval)

lemma layered_profiles:
  "get layeredSlaConfig ''profiles'' =
     Inr (Obj [(''stress'',
                 Obj [(''p95_response_time_ms'', Num (Fin 1500)),
                      (''p99_response_time_ms'', Num (Fin 2500))])])"
  by (simp add: layeredSlaConfig_def obj_eval)

lemma layered_stress:
  "get (Obj [(''stress'',
                 Obj [(''p95_response_time_ms'', Num (Fin 1500)),
                      (''p99_response_time_ms'', Num (Fin 2500))])]) ''stress'' =
     Inr (Obj [(''p95_response_time_ms'', Num (Fin 1500)),
               (''p99_response_time_ms'', Num (Fin 2500))])"
  by (simp add: obj_eval)

lemma layered_sla:
  "performanceSla layeredSlaConfig ''stress'' =
     Inr [(''p50_response_time_ms'', Num (Fin 0)),
          (''p95_response_time_ms'', Num (Fin 1500)),
          (''max_error_rate_percent'', Num (Fin 1)),
          (''p99_response_time_ms'', Num (Fin 2500))]"
  by (simp add: performanceSla_def layeredSlaConfig_def obj_eval)

lemma layered_run:
  "validateAgainstSLA show_int mockK6Metrics unmeasuredInfra ''stress'' layeredSlaConfig =
     Inr layeredResults"
  unfolding validateAgainstSLA_def layered_sla
  by (simp add: layeredResults_def layeredSlaConfig_def validator_eval obj_eval num_eval
      cmp_eval parse_eval exact_doubles)

lemma zero_throughput_sla:
  "performanceSla zeroThroughputConfig ''default'' =
     Inr [(''p95_response_time_ms'', Num (Fin 500)),
          (''max_error_rate_percent'', Num (Fin 1)),
          (''min_throughput_rps'', Num (Fin 0))]"
  by (simp add: performanceSla_def zeroThroughputConfig_def obj_eval)

lemma no_throughput_sla:
  "performanceSla noThroughputConfig ''default'' =
     Inr [(''p95_response_time_ms'', Num (Fin 500)),
          (''max_error_rate_percent'', Num (Fin 1))]"
  by (simp add: performanceSla_def noThroughputConfig_def obj_eval)

lemma zero_throughput_run:
  "validateAgainstSLA show_int mockK6Metrics mockInfraMetrics ''default'' zeroThroughputConfig =
     Inr zeroThroughputResults"
  unfolding validateAgainstSLA_def zero_throughput_sla
  by (simp add: zeroThroughputResults_def zeroThroughputConfig_def validator_eval obj_eval
      num_eval cmp_eval parse_eval exact_doubles)

subsection \<open>Mandatory thresholds\<close>

text \<open>
  C1 as stated fails: with neither mandatory threshold configured, the validator raises
  nothing and returns five ordinary results, those of P95 and of the error rate with
  \<open>passed = False\<close>.
\<close>

theorem missing_mandatory_threshold_counterexample:
  "validateAgainstSLA show_int mockK6Metrics unmeasuredInfra ''default'' bareSlaConfig =
     Inr [\<lparr>metric = ''P50 Response Time (ms)'', actual = Str ''150.00'',
            threshold = ''<= 200'', passed = True\<rparr>,
          \<lparr>metric = ''P90 Response Time (ms)'', actual = Str ''300.00'',
            threshold = ''<= 400'', passed = True\<rparr>,
          \<lparr>metric = ''P95 Response Time (ms)'', actual = Str ''400.00'',
            threshold = ''<= undefined'', passed = False\<rparr>,
          \<lparr>metric = ''P99 Response Time (ms)'', actual = Str ''800.00'',
            threshold = ''<= 1000'', passed = True\<rparr>,
          \<lparr>metric = ''Error Rate (%)'', actual = Str ''0.50'',
            threshold = ''<= undefined'', passed = False\<rparr>]"
  unfolding validateAgainstSLA_def bare_sla
  by (simp add: bareSlaConfig_def validator_eval obj_eval num_eval cmp_eval parse_eval exact_doubles)

text \<open>
  C1 (as amended). The validator has no configuration error. When a mandatory threshold
  (the P95 bound or the maximal error rate) is absent from the resolved thresholds, it
  returns as it does otherwise (here: the six metrics it formats are numbers and the
  configuration has its infrastructure section), and the result for that metric is an
  ordinary one: its threshold reads \<^verbatim>\<open><= undefined\<close> and \<open>passed\<close> is false, since no
  number is \<^verbatim>\<open><= undefined\<close>.
\<close>

theorem missing_mandatory_threshold_fails_check:
  assumes sla: "performanceSla slaConfig runProfile = Inr sla"
    and infra: "get slaConfig ''infrastructure'' = Inr infraSla"
      "infraSla \<noteq> Undefined" "infraSla \<noteq> Null"
    and nums: "p50ResponseTime k6 = Num n50" "p90ResponseTime k6 = Num n90"
      "p95ResponseTime k6 = Num n95" "p99ResponseTime k6 = Num n99"
      "errorRate k6 = Num nerr" "throughput k6 = Num ntp"
  shows "\<exists>rs. validateAgainstSLA nts k6 infraMetrics runProfile slaConfig = Inr rs \<and>
     (own_prop sla ''p95_response_time_ms'' = Undefined \<longrightarrow>
        rs ! 2 = \<lparr> metric = ''P95 Response Time (ms)'', actual = Str (to_fixed nts 2 n95),
                   threshold = ''<= undefined'', passed = False \<rparr>) \<and>
     (own_prop sla ''max_error_rate_percent'' = Undefined \<longrightarrow>
        rs ! 4 = \<lparr> metric = ''Error Rate (%)'', actual = Str (to_fixed nts 2 nerr),
                   threshold = ''<= undefined'', passed = False \<rparr>)"
proof -
  from validateAgainstSLA_returns [OF assms, of nts infraMetrics]
  obtain rest where
    run: "validateAgainstSLA nts k6 infraMetrics runProfile slaConfig =
     Inr ([\<lparr> metric = ''P50 Response Time (ms)'', actual = Str (to_fixed nts 2 n50),
             threshold = ''<= '' @ to_string nts (p50_bound sla),
             passed = js_le nts (Num n50) (p50_bound sla) \<rparr>,
           \<lparr> metric = ''P90 Response Time (ms)'', actual = Str (to_fixed nts 2 n90),
             threshold = ''<= '' @ to_string nts (p90_bound sla),
             passed = js_le nts (Num n90) (p90_bound sla) \<rparr>,
           \<lparr> metric = ''P95 Response Time (ms)'', actual = Str (to_fixed nts 2 n95),
             threshold = ''<= '' @ to_string nts (p95_bound sla),
             passed = js_le nts (Num n95) (p95_bound sla) \<rparr>,
           \<lparr> metric = ''P99 Response Time (ms)'', actual = Str (to_fixed nts 2 n99),
             threshold = ''<= '' @ to_string nts (p99_bound sla),
             passed = js_le nts (Num n99) (p99_bound sla) \<rparr>,
           \<lparr> metric = ''Error Rate (%)'', actual = Str (to_fixed nts 2 nerr),
             threshold = ''<= '' @ to_string nts (error_rate_bound sla),
             passed = js_le nts (Num nerr) (error_rate_bound sla) \<rparr>] @ rest)"
    by blast
  show ?thesis
    unfolding run
    by (simp add: nth_results p95_bound_def error_rate_bound_def js_le_Num_Undefined)
qed

theorem missing_mandatory_threshold_witness:
  "\<exists>rs. validateAgainstSLA show_int mockK6Metrics mockInfraMetrics ''default'' bareSlaConfig
           = Inr rs
     \<and> rs ! 2 = \<lparr> metric = ''P95 Response Time (ms)'', actual = Str ''400.00'',
                   threshold = ''<= undefined'', passed = False \<rparr>
     \<and> rs ! 4 = \<lparr> metric = ''Error Rate (%)'', actual = Str ''0.50'',
                   threshold = ''<= undefined'', passed = False \<rparr>"
proof -
  have nums: "p50ResponseTime mockK6Metrics = Num (Fin 150)"
    "p90ResponseTime mockK6Metrics = Num (Fin 300)"
    "p95ResponseTime mockK6Metrics = Num (Fin 400)"
    "p99ResponseTime mockK6Metrics = Num (Fin 800)"
    "errorRate mockK6Metrics = Num (Fin (1 / 2))"
    "throughput mockK6Metrics = Num (Fin 50)"
    by (simp_all add: mockK6Metrics_def)
  have infra: "mockInfrastructure \<noteq> Undefined" "mockInfrastructure \<noteq> Null"
    by (simp_all add: mockInfrastructure_def)
  have absent: "own_prop [(''p50_response_time_ms'', Num (Fin 200))] ''p95_response_time_ms''
      = Undefined"
    "own_prop [(''p50_response_time_ms'', Num (Fin 200))] ''max_error_rate_percent''
      = Undefined"
    by (simp_all add: own_prop_def)
  have fixed: "to_fixed show_int 2 (Fin 400) = ''400.00''"
    "to_fixed show_int 2 (Fin (1 / 2)) = ''0.50''"
    by (simp_all add: num_eval)
  from missing_mandatory_threshold_fails_check
    [OF bare_sla bare_infrastructure infra nums, of show_int mockInfraMetrics]
  show ?thesis
    unfolding absent fixed by simp
qed

subsection \<open>The overlay of a profile on the global thresholds\<close>

text \<open>The thresholds the validator resolves are the effective thresholds.\<close>

lemma performanceSla_overlay:
  assumes "get slaConfig ''performance'' = Inr defaults"
    and "get slaConfig ''profiles'' = Inr overrides"
    and "get overrides runProfile = Inr p"
  shows "performanceSla slaConfig runProfile = Inr (spread2 defaults (js_or p (Obj [])))"
    and "own_prop (spread2 defaults (js_or p (Obj []))) k = effective_threshold defaults p k"
  by (simp_all add: performanceSla_def assms own_prop_spread2 effective_threshold_def)

text \<open>The first six results of a run whose metrics are numbers.\<close>

lemma validateAgainstSLA_six:
  assumes sla: "performanceSla slaConfig runProfile = Inr sla"
    and infra: "get slaConfig ''infrastructure'' = Inr infraSla"
      "infraSla \<noteq> Undefined" "infraSla \<noteq> Null"
    and nums: "p50ResponseTime k6 = Num n50" "p90ResponseTime k6 = Num n90"
      "p95ResponseTime k6 = Num n95" "p99ResponseTime k6 = Num n99"
      "errorRate k6 = Num nerr" "throughput k6 = Num ntp"
  shows "\<exists>rest. validateAgainstSLA nts k6 infraMetrics runProfile slaConfig =
     Inr ([\<lparr> metric = ''P50 Response Time (ms)'', actual = Str (to_fixed nts 2 n50),
             threshold = ''<= '' @ to_string nts (p50_bound sla),
             passed = js_le nts (Num n50) (p50_bound sla) \<rparr>,
           \<lparr> metric = ''P90 Response Time (ms)'', actual = Str (to_fixed nts 2 n90),
             threshold = ''<= '' @ to_string nts (p90_bound sla),
             passed = js_le nts (Num n90) (p90_bound sla) \<rparr>,
           \<lparr> metric = ''P95 Response Time (ms)'', actual = Str (to_fixed nts 2 n95),
             threshold = ''<= '' @ to_string nts (p95_bound sla),
             passed = js_le nts (Num n95) (p95_bound sla) \<rparr>,
           \<lparr> metric = ''P99 Response Time (ms)'', actual = Str (to_fixed nts 2 n99),
             threshold = ''<= '' @ to_string nts (p99_bound sla),
             passed = js_le nts (Num n99) (p99_bound sla) \<rparr>,
           \<lparr> metric = ''Error Rate (%)'', actual = Str (to_fixed nts 2 nerr),
             threshold = ''<= '' @ to_string nts (error_rate_bound sla),
             passed = js_le nts (Num nerr) (error_rate_bound sla) \<rparr>]
          @ (if truthy (throughput_bound sla)
             then [\<lparr> metric = ''Throughput (req/s)'', actual = Str (to_fixed nts 2 ntp),
                     threshold = ''>= '' @ to_string nts (throughput_bound sla),
                     passed = js_ge nts (Num ntp) (throughput_bound sla) \<rparr>]
             else [])
          @ rest)"
  unfolding validateAgainstSLA_def
  by (simp add: sla infra nums le_result_Num ge_result_Num infra_result_def get_Inr)

text \<open>
  C3 as stated fails: the \<^verbatim>\<open>smoke\<close> profile overrides the P90 bound (250 by default) and
  the minimum throughput (40 by default) with 0; the validator checks P90 against 400,
  which is neither the override nor the global default, and makes no throughput check.
\<close>

theorem zero_override_counterexample:
  "effective_threshold
      (Obj [(''p90_response_time_ms'', Num (Fin 250)),
            (''p95_response_time_ms'', Num (Fin 500)),
            (''max_error_rate_percent'', Num (Fin 1)),
            (''min_throughput_rps'', Num (Fin 40))])
      (Obj [(''p90_response_time_ms'', Num (Fin 0)), (''min_throughput_rps'', Num (Fin 0))])
      ''p90_response_time_ms'' = Num (Fin 0)
   \<and> validateAgainstSLA show_int mockK6Metrics unmeasuredInfra ''smoke'' smokeSlaConfig =
     Inr [\<lparr>metric = ''P50 Response Time (ms)'', actual = Str ''150.00'',
            threshold = ''<= 200'', passed = True\<rparr>,
          \<lparr>metric = ''P90 Response Time (ms)'', actual = Str ''300.00'',
            threshold = ''<= 400'', passed = True\<rparr>,
          \<lparr>metric = ''P95 Response Time (ms)'', actual = Str ''400.00'',
            threshold = ''<= 500'', passed = True\<rparr>,
          \<lparr>metric = ''P99 Response Time (ms)'', actual = Str ''800.00'',
            threshold = ''<= 1000'', passed = True\<rparr>,
          \<lparr>metric = ''Error Rate (%)'', actual = Str ''0.50'',
            threshold = ''<= 1'', passed = True\<rparr>]"
proof -
  have "performanceSla smokeSlaConfig ''smoke'' =
     Inr [(''p90_response_time_ms'', Num (Fin 0)),
          (''p95_response_time_ms'', Num (Fin 500)),
          (''max_error_rate_percent'', Num (Fin 1)),
          (''min_throughput_rps'', Num (Fin 0))]"
    by (simp add: performanceSla_def smokeSlaConfig_def obj_eval)
  then have "validateAgainstSLA show_int mockK6Metrics unmeasuredInfra ''smoke'' smokeSlaConfig =
     Inr [\<lparr>metric = ''P50 Response Time (ms)'', actual = Str ''150.00'',
            threshold = ''<= 200'', passed = True\<rparr>,
          \<lparr>metric = ''P90 Response Time (ms)'', actual = Str ''300.00'',
            threshold = ''<= 400'', passed = True\<rparr>,
          \<lparr>metric = ''P95 Response Time (ms)'', actual = Str ''400.00'',
            threshold = ''<= 500'', passed = True\<rparr>,
          \<lparr>metric = ''P99 Response Time (ms)'', actual = Str ''800.00'',
            threshold = ''<= 1000'', passed = True\<rparr>,
          \<lparr>metric = ''Error Rate (%)'', actual = Str ''0.50'',
            threshold = ''<= 1'', passed = True\<rparr>]"
    unfolding validateAgainstSLA_def
    by (simp add: smokeSlaConfig_def validator_eval obj_eval num_eval cmp_eval)
  then show ?thesis
    by (simp add: effective_threshold_def obj_eval)
qed

text \<open>
  C3 (as amended). The effective threshold of a key is the value the active profile
  defines for it when it defines one, and the global default otherwise. The validator
  (which returns: here the six metrics it formats are numbers and the configuration has
  its infrastructure section) checks P95 and the error rate against their effective
  thresholds as they are; it checks P50, P90 and P99 against their effective thresholds
  when these are truthy, and against 200, 400 and 1000 otherwise; it checks the
  throughput against its effective threshold when that is truthy, and not at all
  otherwise.
\<close>

theorem effective_threshold_used:
  assumes defaults: "get slaConfig ''performance'' = Inr defaults"
    and overrides: "get slaConfig ''profiles'' = Inr overrides"
    and profile: "get overrides runProfile = Inr p"
    and infra: "get slaConfig ''infrastructure'' = Inr infraSla"
      "infraSla \<noteq> Undefined" "infraSla \<noteq> Null"
    and nums: "p50ResponseTime k6 = Num n50" "p90ResponseTime k6 = Num n90"
      "p95ResponseTime k6 = Num n95" "p99ResponseTime k6 = Num n99"
      "errorRate k6 = Num nerr" "throughput k6 = Num ntp"
  shows "\<exists>rs. validateAgainstSLA nts k6 infraMetrics runProfile slaConfig = Inr rs \<and>
     rs ! 0 = \<lparr> metric = ''P50 Response Time (ms)'', actual = Str (to_fixed nts 2 n50),
       threshold = ''<= '' @ to_string nts
         (js_or (effective_threshold defaults p ''p50_response_time_ms'') (Num (Fin 200))),
       passed = js_le nts (Num n50)
         (js_or (effective_threshold defaults p ''p50_response_time_ms'') (Num (Fin 200))) \<rparr> \<and>
     rs ! 1 = \<lparr> metric = ''P90 Response Time (ms)'', actual = Str (to_fixed nts 2 n90),
       threshold = ''<= '' @ to_string nts
         (js_or (effective_threshold defaults p ''p90_response_time_ms'') (Num (Fin 400))),
       passed = js_le nts (Num n90)
         (js_or (effective_threshold defaults p ''p90_response_time_ms'') (Num (Fin 400))) \<rparr> \<and>
     rs ! 2 = \<lparr> metric = ''P95 Response Time (ms)'', actual = Str (to_fixed nts 2 n95),
       threshold = ''<= '' @ to_string nts
         (effective_threshold defaults p ''p95_response_time_ms''),
       passed = js_le nts (Num n95)
         (effective_threshold defaults p ''p95_response_time_ms'') \<rparr> \<and>
     rs ! 3 = \<lparr> metric = ''P99 Response Time (ms)'', actual = Str (to_fixed nts 2 n99),
       threshold = ''<= '' @ to_string nts
         (js_or (effective_threshold defaults p ''p99_response_time_ms'') (Num (Fin 1000))),
       passed = js_le nts (Num n99)
         (js_or (effective_threshold defaults p ''p99_response_time_ms'') (Num (Fin 1000))) \<rparr> \<and>
     rs ! 4 = \<lparr> metric = ''Error Rate (%)'', actual = Str (to_fixed nts 2 nerr),
       threshold = ''<= '' @ to_string nts
         (effective_threshold defaults p ''max_error_rate_percent''),
       passed = js_le nts (Num nerr)
         (effective_threshold defaults p ''max_error_rate_percent'') \<rparr> \<and>
     (if truthy (effective_threshold defaults p ''min_throughput_rps'')
      then rs ! 5 = \<lparr> metric = ''Throughput (req/s)'', actual = Str (to_fixed nts 2 ntp),
        threshold = ''>= '' @ to_string nts
          (effective_threshold defaults p ''min_throughput_rps''),
        passed = js_ge nts (Num ntp)
          (effective_threshold defaults p ''min_throughput_rps'') \<rparr>
      else ''Throughput (req/s)'' \<notin> metric ` set rs)"
proof -
  let ?sla = "spread2 defaults (js_or p (Obj []))"
  note overlay = performanceSla_overlay [OF defaults overrides profile]
  from validateAgainstSLA_six [OF overlay(1) infra nums, of nts infraMetrics]
  obtain rs rest where
    run: "validateAgainstSLA nts k6 infraMetrics runProfile slaConfig = Inr rs"
    and rs: "rs =
          [\<lparr> metric = ''P50 Response Time (ms)'', actual = Str (to_fixed nts 2 n50),
             threshold = ''<= '' @ to_string nts (p50_bound ?sla),
             passed = js_le nts (Num n50) (p50_bound ?sla) \<rparr>,
           \<lparr> metric = ''P90 Response Time (ms)'', actual = Str (to_fixed nts 2 n90),
             threshold = ''<= '' @ to_string nts (p90_bound ?sla),
             passed = js_le nts (Num n90) (p90_bound ?sla) \<rparr>,
           \<lparr> metric = ''P95 Response Time (ms)'', actual = Str (to_fixed nts 2 n95),
             threshold = ''<= '' @ to_string nts (p95_bound ?sla),
             passed = js_le nts (Num n95) (p95_bound ?sla) \<rparr>,
           \<lparr> metric = ''P99 Response Time (ms)'', actual = Str (to_fixed nts 2 n99),
             threshold = ''<= '' @ to_string nts (p99_bound ?sla),
             passed = js_le nts (Num n99) (p99_bound ?sla) \<rparr>,
           \<lparr> metric = ''Error Rate (%)'', actual = Str (to_fixed nts 2 nerr),
             threshold = ''<= '' @ to_string nts (error_rate_bound ?sla),
             passed = js_le nts (Num nerr) (error_rate_bound ?sla) \<rparr>]
          @ (if truthy (throughput_bound ?sla)
             then [\<lparr> metric = ''Throughput (req/s)'', actual = Str (to_fixed nts 2 ntp),
                     threshold = ''>= '' @ to_string nts (throughput_bound ?sla),
                     passed = js_ge nts (Num ntp) (throughput_bound ?sla) \<rparr>]
             else [])
          @ rest"
    by blast
  have bounds:
    "p50_bound ?sla = js_or (effective_threshold defaults p ''p50_response_time_ms'') (Num (Fin 200))"
    "p90_bound ?sla = js_or (effective_threshold defaults p ''p90_response_time_ms'') (Num (Fin 400))"
    "p95_bound ?sla = effective_threshold defaults p ''p95_response_time_ms''"
    "p99_bound ?sla = js_or (effective_threshold defaults p ''p99_response_time_ms'') (Num (Fin 1000))"
    "error_rate_bound ?sla = effective_threshold defaults p ''max_error_rate_percent''"
    "throughput_bound ?sla = effective_threshold defaults p ''min_throughput_rps''"
    by (simp_all add: p50_bound_def p90_bound_def p95_bound_def p99_bound_def
        error_rate_bound_def throughput_bound_def overlay(2))
  have five: "rs ! 0 = \<lparr> metric = ''P50 Response Time (ms)'', actual = Str (to_fixed nts 2 n50),
             threshold = ''<= '' @ to_string nts (p50_bound ?sla),
             passed = js_le nts (Num n50) (p50_bound ?sla) \<rparr>"
    "rs ! 1 = \<lparr> metric = ''P90 Response Time (ms)'', actual = Str (to_fixed nts 2 n90),
             threshold = ''<= '' @ to_string nts (p90_bound ?sla),
             passed = js_le nts (Num n90) (p90_bound ?sla) \<rparr>"
    "rs ! 2 = \<lparr> metric = ''P95 Response Time (ms)'', actual = Str (to_fixed nts 2 n95),
             threshold = ''<= '' @ to_string nts (p95_bound ?sla),
             passed = js_le nts (Num n95) (p95_bound ?sla) \<rparr>"
    "rs ! 3 = \<lparr> metric = ''P99 Response Time (ms)'', actual = Str (to_fixed nts 2 n99),
             threshold = ''<= '' @ to_string nts (p99_bound ?sla),
             passed = js_le nts (Num n99) (p99_bound ?sla) \<rparr>"
    "rs ! 4 = \<lparr> metric = ''Error Rate (%)'', actual = Str (to_fixed nts 2 nerr),
             threshold = ''<= '' @ to_string nts (error_rate_bound ?sla),
             passed = js_le nts (Num nerr) (error_rate_bound ?sla) \<rparr>"
    unfolding rs by (simp_all only: nth_results)
  have sixth: "rs ! 5 = \<lparr> metric = ''Throughput (req/s)'', actual = Str (to_fixed nts 2 ntp),
                     threshold = ''>= '' @ to_string nts (throughput_bound ?sla),
                     passed = js_ge nts (Num ntp) (throughput_bound ?sla) \<rparr>"
    if "truthy (throughput_bound ?sla)"
    unfolding rs using that by (simp add: nth_append)
  have none: "''Throughput (req/s)'' \<notin> metric ` set rs" if "\<not> truthy (throughput_bound ?sla)"
    using throughput_result_metric [OF run overlay(1)] that by simp
  from five sixth none show ?thesis
    unfolding run bounds by simp
qed

theorem effective_threshold_used_witness:
  "\<exists>rs. validateAgainstSLA show_int mockK6Metrics unmeasuredInfra ''stress'' layeredSlaConfig
           = Inr rs
     \<and> rs ! 0 = \<lparr> metric = ''P50 Response Time (ms)'', actual = Str ''150.00'',
                   threshold = ''<= 200'', passed = True \<rparr>
     \<and> rs ! 1 = \<lparr> metric = ''P90 Response Time (ms)'', actual = Str ''300.00'',
                   threshold = ''<= 400'', passed = True \<rparr>
     \<and> rs ! 2 = \<lparr> metric = ''P95 Response Time (ms)'', actual = Str ''400.00'',
                   threshold = ''<= 1500'', passed = True \<rparr>
     \<and> rs ! 3 = \<lparr> metric = ''P99 Response Time (ms)'', actual = Str ''800.00'',
                   threshold = ''<= 2500'', passed = True \<rparr>
     \<and> rs ! 4 = \<lparr> metric = ''Error Rate (%)'', actual = Str ''0.50'',
                   threshold = ''<= 1'', passed = True \<rparr>
     \<and> ''Throughput (req/s)'' \<notin> metric ` set rs"
proof -
  let ?defaults = "Obj [(''p50_response_time_ms'', Num (Fin 0)),
               (''p95_response_time_ms'', Num (Fin 500)),
               (''max_error_rate_percent'', Num (Fin 1))]"
  let ?stress = "Obj [(''p95_response_time_ms'', Num (Fin 1500)),
               (''p99_response_time_ms'', Num (Fin 2500))]"
  have nums: "p50ResponseTime mockK6Metrics = Num (Fin 150)"
    "p90ResponseTime mockK6Metrics = Num (Fin 300)"
    "p95ResponseTime mockK6Metrics = Num (Fin 400)"
    "p99ResponseTime mockK6Metrics = Num (Fin 800)"
    "errorRate mockK6Metrics = Num (Fin (1 / 2))"
    "throughput mockK6Metrics = Num (Fin 50)"
    by (simp_all add: mockK6Metrics_def)
  have infra: "get layeredSlaConfig ''infrastructure'' = Inr mockInfrastructure"
    "mockInfrastructure \<noteq> Undefined" "mockInfrastructure \<noteq> Null"
    by (simp_all add: layeredSlaConfig_def mockInfrastructure_def obj_eval)
  have eff: "effective_threshold ?defaults ?stress ''p50_response_time_ms'' = Num (Fin 0)"
    "effective_threshold ?defaults ?stress ''p90_response_time_ms'' = Undefined"
    "effective_threshold ?defaults ?stress ''p95_response_time_ms'' = Num (Fin 1500)"
    "effective_threshold ?defaults ?stress ''p99_response_time_ms'' = Num (Fin 2500)"
    "effective_threshold ?defaults ?stress ''max_error_rate_percent'' = Num (Fin 1)"
    "effective_threshold ?defaults ?stress ''min_throughput_rps'' = Undefined"
    by (simp_all add: effective_threshold_def obj_eval)
  have fixed: "to_fixed show_int 2 (Fin 150) = ''150.00''"
    "to_fixed show_int 2 (Fin 300) = ''300.00''"
    "to_fixed show_int 2 (Fin 400) = ''400.00''"
    "to_fixed show_int 2 (Fin 800) = ''800.00''"
    "to_fixed show_int 2 (Fin (1 / 2)) = ''0.50''"
    by (simp_all add: num_eval)
  from effective_threshold_used
    [OF layered_performance layered_profiles layered_stress infra nums,
     of show_int unmeasuredInfra]
  show ?thesis
    unfolding eff fixed by (simp add: js_or_def truthy_def cmp_eval num_eval)
qed

subsection \<open>The defaults of the percentile bounds\<close>

text \<open>
  C8 as stated fails: the resolved P50 bound is the supplied number 0, and the P50 check
  uses 200 (\<^verbatim>\<open>150 <= 0\<close> would fail; the check passes against \<^verbatim>\<open><= 200\<close>).
\<close>

theorem supplied_zero_bound_counterexample:
  "\<exists>sla rs. performanceSla layeredSlaConfig ''stress'' = Inr sla
     \<and> own_prop sla ''p50_response_time_ms'' = Num (Fin 0)
     \<and> validateAgainstSLA show_int mockK6Metrics unmeasuredInfra ''stress'' layeredSlaConfig
         = Inr rs
     \<and> rs ! 0 = \<lparr>metric = ''P50 Response Time (ms)'', actual = Str ''150.00'',
                  threshold = ''<= 200'', passed = True\<rparr>"
  unfolding layered_sla layered_run
  by (simp add: layeredResults_def own_prop_def)

text \<open>
  C8 (as amended). The P50, P90 and P99 checks (results 0, 1 and 3) compare against the
  resolved bound when that is truthy, and against 200, 400 and 1000 otherwise: when the
  bound is absent, and also when it is supplied as 0 (or \<^verbatim>\<open>null\<close>, \<^verbatim>\<open>false\<close>, \<^verbatim>\<open>''\<close>,
  \<^verbatim>\<open>NaN\<close>).
\<close>

theorem percentile_bound_defaults:
  assumes run: "validateAgainstSLA nts k6 infra runProfile slaConfig = Inr rs"
    and sla: "performanceSla slaConfig runProfile = Inr sla"
  shows
    "threshold (rs ! 0) = ''<= '' @ to_string nts
        (if truthy (own_prop sla ''p50_response_time_ms'')
         then own_prop sla ''p50_response_time_ms'' else Num (Fin 200)) \<and>
     passed (rs ! 0) = js_le nts (p50ResponseTime k6)
        (if truthy (own_prop sla ''p50_response_time_ms'')
         then own_prop sla ''p50_response_time_ms'' else Num (Fin 200)) \<and>
     threshold (rs ! 1) = ''<= '' @ to_string nts
        (if truthy (own_prop sla ''p90_response_time_ms'')
         then own_prop sla ''p90_response_time_ms'' else Num (Fin 400)) \<and>
     passed (rs ! 1) = js_le nts (p90ResponseTime k6)
        (if truthy (own_prop sla ''p90_response_time_ms'')
         then own_prop sla ''p90_response_time_ms'' else Num (Fin 400)) \<and>
     threshold (rs ! 3) = ''<= '' @ to_string nts
        (if truthy (own_prop sla ''p99_response_time_ms'')
         then own_prop sla ''p99_response_time_ms'' else Num (Fin 1000)) \<and>
     passed (rs ! 3) = js_le nts (p99ResponseTime k6)
        (if truthy (own_prop sla ''p99_response_time_ms'')
         then own_prop sla ''p99_response_time_ms'' else Num (Fin 1000))"
proof -
  from run obtain sla' r50 r90 r95 r99 rerr rtp rcpu rmem where
    s: "performanceSla slaConfig runProfile = Inr sla'"
    and r50: "le_result nts ''P50 Response Time (ms)'' (p50ResponseTime k6) (p50_bound sla') = Inr r50"
    and r90: "le_result nts ''P90 Response Time (ms)'' (p90ResponseTime k6) (p90_bound sla') = Inr r90"
    and r99: "le_result nts ''P99 Response Time (ms)'' (p99ResponseTime k6) (p99_bound sla') = Inr r99"
    and rs: "rs = [r50, r90, r95, r99, rerr] @ rtp @ rcpu @ rmem"
    by (rule validateAgainstSLA_Inr)
  from s sla have eq: "sla' = sla" by simp
  from r50 have "threshold r50 = ''<= '' @ to_string nts (p50_bound sla)"
    and "passed r50 = js_le nts (p50ResponseTime k6) (p50_bound sla)"
    by (auto simp: le_result_eq_Inr eq)
  moreover from r90 have "threshold r90 = ''<= '' @ to_string nts (p90_bound sla)"
    and "passed r90 = js_le nts (p90ResponseTime k6) (p90_bound sla)"
    by (auto simp: le_result_eq_Inr eq)
  moreover from r99 have "threshold r99 = ''<= '' @ to_string nts (p99_bound sla)"
    and "passed r99 = js_le nts (p99ResponseTime k6) (p99_bound sla)"
    by (auto simp: le_result_eq_Inr eq)
  ultimately show ?thesis
    unfolding rs nth_results p50_bound_def p90_bound_def p99_bound_def js_or_def
    by simp
qed

theorem percentile_bound_defaults_witness:
  "validateAgainstSLA show_int mockK6Metrics unmeasuredInfra ''stress'' layeredSlaConfig
     = Inr layeredResults
   \<and> threshold (layeredResults ! 0) = ''<= 200'' \<and> passed (layeredResults ! 0)
   \<and> threshold (layeredResults ! 1) = ''<= 400'' \<and> passed (layeredResults ! 1)
   \<and> threshold (layeredResults ! 3) = ''<= 2500'' \<and> passed (layeredResults ! 3)"
proof -
  have bounds:
    "own_prop [(''p50_response_time_ms'', Num (Fin 0)),
          (''p95_response_time_ms'', Num (Fin 1500)),
          (''max_error_rate_percent'', Num (Fin 1)),
          (''p99_response_time_ms'', Num (Fin 2500))] ''p50_response_time_ms'' = Num (Fin 0)"
    "own_prop [(''p50_response_time_ms'', Num (Fin 0)),
          (''p95_response_time_ms'', Num (Fin 1500)),
          (''max_error_rate_percent'', Num (Fin 1)),
          (''p99_response_time_ms'', Num (Fin 2500))] ''p90_response_time_ms'' = Undefined"
    "own_prop [(''p50_response_time_ms'', Num (Fin 0)),
          (''p95_response_time_ms'', Num (Fin 1500)),
          (''max_error_rate_percent'', Num (Fin 1)),
          (''p99_response_time_ms'', Num (Fin 2500))] ''p99_response_time_ms'' = Num (Fin 2500)"
    by (simp_all add: own_prop_def)
  from percentile_bound_defaults [OF layered_run layered_sla]
  have "threshold (layeredResults ! 0) = ''<= 200'' \<and> passed (layeredResults ! 0)
   \<and> threshold (layeredResults ! 1) = ''<= 400'' \<and> passed (layeredResults ! 1)
   \<and> threshold (layeredResults ! 3) = ''<= 2500'' \<and> passed (layeredResults ! 3)"
    unfolding bounds
    by (simp add: mockK6Metrics_def truthy_def num_eval cmp_eval)
  with layered_run show ?thesis by simp
qed

subsection \<open>The order of the results\<close>

text \<open>
  C9. Whenever the validator returns, its list is in the fixed order: P50, P90, P95, P99,
  then the error rate, then the throughput check if it is emitted (the resolved
  \<^verbatim>\<open>min_throughput_rps\<close> is truthy), then the CPU check and the memory check, each if
  its metric was measured (is not \<^verbatim>\<open>'N/A'\<close>).
\<close>

theorem validation_order:
  assumes run: "validateAgainstSLA nts k6 infra runProfile slaConfig = Inr rs"
    and sla: "performanceSla slaConfig runProfile = Inr sla"
  shows "map metric rs =
     [''P50 Response Time (ms)'', ''P90 Response Time (ms)'', ''P95 Response Time (ms)'',
      ''P99 Response Time (ms)'', ''Error Rate (%)'']
     @ (if truthy (throughput_bound sla) then [''Throughput (req/s)''] else [])
     @ (if avgCpuUsage infra \<noteq> Str ''N/A'' then [''CPU Usage (%)''] else [])
     @ (if avgMemoryUsage infra \<noteq> Str ''N/A'' then [''Memory Usage (%)''] else [])"
  using run sla by (rule result_metric_names)

theorem validation_order_witness:
  "validateAgainstSLA show_int mockK6Metrics mockInfraMetrics ''default'' mockSlaConfig
     = Inr mockResults
   \<and> map metric mockResults =
       [''P50 Response Time (ms)'', ''P90 Response Time (ms)'', ''P95 Response Time (ms)'',
        ''P99 Response Time (ms)'', ''Error Rate (%)'', ''Throughput (req/s)'',
        ''CPU Usage (%)'', ''Memory Usage (%)'']"
proof -
  have "map metric mockResults =
       [''P50 Response Time (ms)'', ''P90 Response Time (ms)'', ''P95 Response Time (ms)'',
        ''P99 Response Time (ms)'', ''Error Rate (%)'', ''Throughput (req/s)'',
        ''CPU Usage (%)'', ''Memory Usage (%)'']"
    using validation_order [OF mock_run mock_sla]
    by (simp add: throughput_bound_def own_prop_def truthy_def mockInfraMetrics_def)
  with mock_run show ?thesis by simp
qed

subsection \<open>The throughput check\<close>

text \<open>
  C10. A throughput result is emitted only when the resolved \<^verbatim>\<open>min_throughput_rps\<close> is
  neither 0 nor absent. When it is the number 0 no throughput result is emitted, and the
  validator returns the very list it returns for a configuration that resolves to the
  same bounds without a minimum throughput.
\<close>

theorem zero_throughput_bound_emits_no_check:
  assumes run: "validateAgainstSLA nts k6 infra runProfile slaConfig = Inr rs"
    and sla: "performanceSla slaConfig runProfile = Inr sla"
  shows
    "(''Throughput (req/s)'' \<in> metric ` set rs \<longrightarrow>
        throughput_bound sla \<noteq> Num (Fin 0) \<and> throughput_bound sla \<noteq> Undefined) \<and>
     (throughput_bound sla = Num (Fin 0) \<longrightarrow>
        ''Throughput (req/s)'' \<notin> metric ` set rs \<and>
        (\<forall>slaConfig' runProfile' sla'.
           performanceSla slaConfig' runProfile' = Inr sla' \<and>
           throughput_bound sla' = Undefined \<and>
           p50_bound sla' = p50_bound sla \<and> p90_bound sla' = p90_bound sla \<and>
           p95_bound sla' = p95_bound sla \<and> p99_bound sla' = p99_bound sla \<and>
           error_rate_bound sla' = error_rate_bound sla \<and>
           get slaConfig' ''infrastructure'' = get slaConfig ''infrastructure'' \<longrightarrow>
           validateAgainstSLA nts k6 infra runProfile' slaConfig' = Inr rs))"
proof -
  have emitted: "(''Throughput (req/s)'' \<in> metric ` set rs) = truthy (throughput_bound sla)"
    using run sla by (rule throughput_result_metric)
  have "\<not> truthy (Num (Fin 0))" "\<not> truthy Undefined"
    by (simp_all add: truthy_def)
  then have 1: "''Throughput (req/s)'' \<in> metric ` set rs \<longrightarrow>
        throughput_bound sla \<noteq> Num (Fin 0) \<and> throughput_bound sla \<noteq> Undefined"
    unfolding emitted by auto
  have 2: "throughput_bound sla = Num (Fin 0) \<longrightarrow>
        ''Throughput (req/s)'' \<notin> metric ` set rs \<and>
        (\<forall>slaConfig' runProfile' sla'.
           performanceSla slaConfig' runProfile' = Inr sla' \<and>
           throughput_bound sla' = Undefined \<and>
           p50_bound sla' = p50_bound sla \<and> p90_bound sla' = p90_bound sla \<and>
           p95_bound sla' = p95_bound sla \<and> p99_bound sla' = p99_bound sla \<and>
           error_rate_bound sla' = error_rate_bound sla \<and>
           get slaConfig' ''infrastructure'' = get slaConfig ''infrastructure'' \<longrightarrow>
           validateAgainstSLA nts k6 infra runProfile' slaConfig' = Inr rs)"
  proof (intro impI conjI allI)
    assume zero: "throughput_bound sla = Num (Fin 0)"
    then show "''Throughput (req/s)'' \<notin> metric ` set rs"
      unfolding emitted by (simp add: truthy_def)
  next
    fix slaConfig' runProfile' sla'
    assume zero: "throughput_bound sla = Num (Fin 0)"
    assume other: "performanceSla slaConfig' runProfile' = Inr sla' \<and>
           throughput_bound sla' = Undefined \<and>
           p50_bound sla' = p50_bound sla \<and> p90_bound sla' = p90_bound sla \<and>
           p95_bound sla' = p95_bound sla \<and> p99_bound sla' = p99_bound sla \<and>
           error_rate_bound sla' = error_rate_bound sla \<and>
           get slaConfig' ''infrastructure'' = get slaConfig ''infrastructure''"
    have "validateAgainstSLA nts k6 infra runProfile' slaConfig' =
         validateAgainstSLA nts k6 infra runProfile slaConfig"
      using sla other zero
      by (intro validateAgainstSLA_same_bounds [where sla = sla and sla' = sla'])
        (simp_all add: truthy_def)
    with run show "validateAgainstSLA nts k6 infra runProfile' slaConfig' = Inr rs"
      by simp
  qed
  from 1 2 show ?thesis by (rule conjI)
qed

theorem zero_throughput_bound_witness:
  "validateAgainstSLA show_int mockK6Metrics mockInfraMetrics ''default'' zeroThroughputConfig
     = Inr zeroThroughputResults
   \<and> ''Throughput (req/s)'' \<notin> metric ` set zeroThroughputResults
   \<and> validateAgainstSLA show_int mockK6Metrics mockInfraMetrics ''default'' noThroughputConfig
     = Inr zeroThroughputResults"
proof -
  let ?sla = "[(''p95_response_time_ms'', Num (Fin 500)),
          (''max_error_rate_percent'', Num (Fin 1)),
          (''min_throughput_rps'', Num (Fin 0))]"
  let ?sla' = "[(''p95_response_time_ms'', Num (Fin 500)),
          (''max_error_rate_percent'', Num (Fin 1))]"
  have zero: "throughput_bound ?sla = Num (Fin 0)"
    by (simp add: throughput_bound_def own_prop_def)
  have other: "performanceSla noThroughputConfig ''default'' = Inr ?sla' \<and>
           throughput_bound ?sla' = Undefined \<and>
           p50_bound ?sla' = p50_bound ?sla \<and> p90_bound ?sla' = p90_bound ?sla \<and>
           p95_bound ?sla' = p95_bound ?sla \<and> p99_bound ?sla' = p99_bound ?sla \<and>
           error_rate_bound ?sla' = error_rate_bound ?sla \<and>
           get noThroughputConfig ''infrastructure'' = get zeroThroughputConfig ''infrastructure''"
  proof -
    have "get noThroughputConfig ''infrastructure'' = get zeroThroughputConfig ''infrastructure''"
      by (simp add: noThroughputConfig_def zeroThroughputConfig_def obj_eval)
    with no_throughput_sla show ?thesis
      by (simp add: throughput_bound_def p50_bound_def p90_bound_def
          p95_bound_def p99_bound_def error_rate_bound_def own_prop_def)
  qed
  from zero_throughput_bound_emits_no_check [OF zero_throughput_run zero_throughput_sla] zero
  have "''Throughput (req/s)'' \<notin> metric ` set zeroThroughputResults"
    and all: "\<forall>slaConfig' runProfile' sla'.
           performanceSla slaConfig' runProfile' = Inr sla' \<and>
           throughput_bound sla' = Undefined \<and>
           p50_bound sla' = p50_bound ?sla \<and> p90_bound sla' = p90_bound ?sla \<and>
           p95_bound sla' = p95_bound ?sla \<and> p99_bound sla' = p99_bound ?sla \<and>
           error_rate_bound sla' = error_rate_bound ?sla \<and>
           get slaConfig' ''infrastructure'' = get zeroThroughputConfig ''infrastructure'' \<longrightarrow>
           validateAgainstSLA show_int mockK6Metrics mockInfraMetrics runProfile' slaConfig'
             = Inr zeroThroughputResults"
    by blast+
  moreover from all other
  have "validateAgainstSLA show_int mockK6Metrics mockInfraMetrics ''default'' noThroughputConfig
     = Inr zeroThroughputResults"
    by blast
  ultimately show ?thesis using zero_throughput_run by blast
qed

section \<open>Properties of the metric extractor\<close>





text \<open>What a successful extraction went through.\<close>

lemma extractK6Metrics_Inr:
  assumes "extractK6Metrics nts summary = Inr m"
  obtains ms duration m1 m2 m3 m4 cs e1 e2 u where
    "get summary ''metrics'' = Inr ms"
    "get ms ''http_req_duration'' = Inr duration"
    "(if truthy duration then extract_durations duration initial_metrics
      else Inr initial_metrics) = Inr m1"
    "extract_errorRate ms m1 = Inr m2"
    "extract_requests ms m2 = Inr m3"
    "extract_iterations ms m3 = Inr m4"
    "extract_checks summary = Inr cs"
    "endpoint_entry nts ms ''browse_duration'' ''GET /posts (Browse/List)'' = Inr e1"
    "endpoint_entry nts ms ''api_duration'' ''API Dynamic endpoints (GET/POST)'' = Inr e2"
    "log_metrics nts (m4 \<lparr> checksData := cs, endpoints := e1 @ e2 \<rparr>) = Inr u"
    "m = m4 \<lparr> checksData := cs, endpoints := e1 @ e2 \<rparr>"
  using assms unfolding extractK6Metrics_def bindE_eq_Inr
  by (elim exE conjE) (rule that, assumption+, simp)

lemma extract_errorRate_latency:
  "extract_errorRate ms m = Inr m' \<Longrightarrow>
     p50ResponseTime m' = p50ResponseTime m \<and> p90ResponseTime m' = p90ResponseTime m \<and>
     p95ResponseTime m' = p95ResponseTime m \<and> p99ResponseTime m' = p99ResponseTime m \<and>
     avgResponseTime m' = avgResponseTime m \<and> minResponseTime m' = minResponseTime m \<and>
     maxResponseTime m' = maxResponseTime m"
  by (auto simp: extract_errorRate_def bindE_eq_Inr split: if_splits)

lemma extract_requests_latency:
  "extract_requests ms m = Inr m' \<Longrightarrow>
     p50ResponseTime m' = p50ResponseTime m \<and> p90ResponseTime m' = p90ResponseTime m \<and>
     p95ResponseTime m' = p95ResponseTime m \<and> p99ResponseTime m' = p99ResponseTime m \<and>
     avgResponseTime m' = avgResponseTime m \<and> minResponseTime m' = minResponseTime m \<and>
     maxResponseTime m' = maxResponseTime m"
  by (auto simp: extract_requests_def bindE_eq_Inr split: if_splits)

lemma extract_iterations_latency:
  "extract_iterations ms m = Inr m' \<Longrightarrow>
     p50ResponseTime m' = p50ResponseTime m \<and> p90ResponseTime m' = p90ResponseTime m \<and>
     p95ResponseTime m' = p95ResponseTime m \<and> p99ResponseTime m' = p99ResponseTime m \<and>
     avgResponseTime m' = avgResponseTime m \<and> minResponseTime m' = minResponseTime m \<and>
     maxResponseTime m' = maxResponseTime m"
  by (auto simp: extract_iterations_def bindE_eq_Inr split: if_splits)

lemmas extractor_eval = extractK6Metrics_def extract_durations_def metric_value_def
  extract_errorRate_def extract_requests_def extract_iterations_def extract_checks_def
  check_entry_def typeof_object_def endpoint_entry_def log_metrics_def toFixed_def
  initial_metrics_def





subsection \<open>Absent sub-objects, and a payload without the metrics container\<close>

text \<open>Without the duration sub-object the seven latency fields are 0.\<close>

lemma extraction_without_durations:
  assumes run: "extractK6Metrics nts summary = Inr m"
    and metrics: "get summary ''metrics'' = Inr ms"
    and absent: "get ms ''http_req_duration'' = Inr d" "\<not> truthy d"
  shows "p50ResponseTime m = Num (Fin 0) \<and> p90ResponseTime m = Num (Fin 0) \<and>
     p95ResponseTime m = Num (Fin 0) \<and> p99ResponseTime m = Num (Fin 0) \<and>
     avgResponseTime m = Num (Fin 0) \<and> minResponseTime m = Num (Fin 0) \<and>
     maxResponseTime m = Num (Fin 0)"
proof -
  from run obtain ms' duration m1 m2 m3 m4 cs e1 e2 u where
    ms': "get summary ''metrics'' = Inr ms'"
    and d: "get ms' ''http_req_duration'' = Inr duration"
    and m1: "(if truthy duration then extract_durations duration initial_metrics
      else Inr initial_metrics) = Inr m1"
    and m2: "extract_errorRate ms' m1 = Inr m2"
    and m3: "extract_requests ms' m2 = Inr m3"
    and m4: "extract_iterations ms' m3 = Inr m4"
    and m: "m = m4 \<lparr> checksData := cs, endpoints := e1 @ e2 \<rparr>"
    by (rule extractK6Metrics_Inr)
  from ms' metrics d absent have "m1 = initial_metrics"
    using m1 by simp
  with extract_errorRate_latency [OF m2] extract_requests_latency [OF m3]
    extract_iterations_latency [OF m4] m
  show ?thesis by (simp add: initial_metrics_def)
qed

text \<open>Without \<^verbatim>\<open>root_group\<close>, or without its checks, the sequence of checks is empty.\<close>

lemma extraction_without_checks:
  assumes run: "extractK6Metrics nts summary = Inr m"
    and absent: "get summary ''root_group'' = Inr rg"
      "\<not> truthy rg \<or> get rg ''checks'' = Inr Undefined"
  shows "checksData m = []"
proof -
  from run obtain m4 cs e1 e2 where
    cs: "extract_checks summary = Inr cs"
    and m: "m = m4 \<lparr> checksData := cs, endpoints := e1 @ e2 \<rparr>"
    by (rule extractK6Metrics_Inr)
  have "\<not> truthy Undefined" by (simp add: truthy_def)
  with cs absent have "cs = []"
    by (auto simp: extract_checks_def split: if_splits)
  with m show ?thesis by simp
qed

lemma extraction_of_empty_metrics:
  "extractK6Metrics nts (Obj [(''metrics'', Obj [])]) = Inr initial_metrics"
  by (simp add: extractor_eval obj_eval)

lemma extraction_without_metrics:
  "get summary ''metrics'' = Inr Undefined \<Longrightarrow> extractK6Metrics nts summary = Inl TypeError"
  by (simp add: extractK6Metrics_def get_def)

text \<open>
  C2 fails on the code: a payload without the \<^verbatim>\<open>metrics\<close> container makes
  \<^verbatim>\<open>summary.metrics.http_req_duration\<close> raise a \<^verbatim>\<open>TypeError\<close>; the read is not guarded the
  way \<^verbatim>\<open>summary.root_group && ...\<close> guards the checks container.
\<close>

theorem extractK6Metrics_missing_metrics_raises:
  "extractK6Metrics nts (Obj []) = Inl TypeError
   \<and> extractK6Metrics nts (Obj [(''root_group'', Obj [(''checks'', Arr [])])]) = Inl TypeError"
  by (simp add: extractK6Metrics_def obj_eval)

subsection \<open>The precedence of the error metrics\<close>







section \<open>Properties of the history store\<close>

lemma new_entry:
  "history_entry [] Undefined 51 ''2026-01-01T00:00:00.000Z'' = Inr newEntry"
  by (simp add: history_entry_def newEntry_def count_num_def obj_eval show_nat_lt10
      show_nat_ge10 digit_char_def)

lemma stored_history: "load_history parseStored storedDisk = Arr fullHistory"
  by (simp add: load_history_def parseStored_def storedDisk_def)

text \<open>
  C6. When the stored history is an array \<open>hs\<close> and the file can be written, the history
  returned and persisted is \<open>hs\<close> with the new record appended, cut from the front to its
  last 50 records. It has \<open>min 50 (length hs + 1)\<close> records; when \<open>hs\<close> holds 50, the
  result is \<open>hs\<close> without its first (oldest) record, followed by the new one, and has
  exactly 50 records.
\<close>

theorem history_eviction:
  assumes stored: "load_history json_parse d = Arr hs"
    and entry: "history_entry validationResults metadata now stamp = Inr entry"
    and w: "writable d"
  shows "\<exists>h. saveToHistory json_parse json_stringify now stamp validationResults metadata d
            = Inr (h, d \<lparr> history_file := Text (json_stringify (Arr h)) \<rparr>)
     \<and> h = drop (Suc (length hs) - 50) (hs @ [entry])
     \<and> length h = min 50 (Suc (length hs))
     \<and> (length hs = 50 \<longrightarrow> h = tl hs @ [entry] \<and> length h = 50)"
proof -
  let ?h = "drop (Suc (length hs) - 50) (hs @ [entry])"
  have run: "saveToHistory json_parse json_stringify now stamp validationResults metadata d
            = Inr (?h, d \<lparr> history_file := Text (json_stringify (Arr ?h)) \<rparr>)"
    by (simp add: saveToHistory_def stored entry w Let_def)
  have len: "length ?h = min 50 (Suc (length hs))" by simp
  have full: "length hs = 50 \<longrightarrow> ?h = tl hs @ [entry] \<and> length ?h = 50"
  proof
    assume l: "length hs = 50"
    then have "hs \<noteq> []" by auto
    then have "drop 1 (hs @ [entry]) = tl hs @ [entry]"
      by (cases hs) simp_all
    with l show "?h = tl hs @ [entry] \<and> length ?h = 50" by simp
  qed
  from run len full show ?thesis by blast
qed

theorem history_eviction_witness:
  "length fullHistory = 50 \<and>
   saveToHistory parseStored (\<lambda>v. ''written'') 51 ''2026-01-01T00:00:00.000Z'' [] Undefined
       storedDisk
     = Inr (tl fullHistory @ [newEntry], \<lparr> history_file = Text ''written'', writable = True \<rparr>)
   \<and> length (tl fullHistory @ [newEntry]) = 50"
proof -
  have len: "length fullHistory = 50" by (simp add: fullHistory_def)
  have w: "writable storedDisk" by (simp add: storedDisk_def)
  from history_eviction [OF stored_history new_entry w, of "\<lambda>v. ''written''"] len
  show ?thesis by (simp add: storedDisk_def)
qed

section \<open>Properties of the run comparison\<close>

lemma mapE_raises:
  "x \<in> set xs \<Longrightarrow> f x = Inl e \<Longrightarrow> \<exists>e'. mapE f xs = Inl e'"
proof (induction xs)
  case Nil
  then show ?case by simp
next
  case (Cons a xs)
  show ?case
  proof (cases "f a")
    case (Inl e')
    then show ?thesis by simp
  next
    case (Inr y)
    with Cons obtain e' where "mapE f xs = Inl e'" by auto
    with Inr show ?thesis by simp
  qed
qed

lemma chart_data_returns:
  assumes "\<forall>h \<in> set history. \<exists>ms. get h ''metrics'' = Inr ms \<and> ms \<noteq> Undefined \<and> ms \<noteq> Null"
  shows "chart_data history = Inr ()"
proof -
  have "\<exists>y. get h ''timestamp'' = Inr y" if "h \<in> set history" for h
    using assms that by (auto simp: get_eq_Inr)
  then obtain labels where l: "mapE (\<lambda>h. get h ''timestamp'') history = Inr labels"
    using mapE_returns [of history "\<lambda>h. get h ''timestamp''"] by blast
  have "\<exists>y. bindE (get h ''metrics'') object_keys = Inr y" if "h \<in> set history" for h
  proof -
    from assms that obtain ms where "get h ''metrics'' = Inr ms" "ms \<noteq> Undefined" "ms \<noteq> Null"
      by blast
    then show ?thesis by (cases ms) (simp_all add: object_keys_def)
  qed
  then obtain ks where "mapE (\<lambda>h. bindE (get h ''metrics'') object_keys) history = Inr ks"
    using mapE_returns [of history "\<lambda>h. bindE (get h ''metrics'') object_keys"] by blast
  with l show ?thesis by (simp add: chart_data_def)
qed

lemma object_keys_eq_Inl: "object_keys v = Inl e \<longleftrightarrow> (v = Undefined \<or> v = Null) \<and> e = TypeError"
  by (cases v) (auto simp: object_keys_def)

lemma chart_data_raises:
  assumes "h \<in> set history" "get h ''metrics'' = Inr Undefined \<or> get h ''metrics'' = Inr Null"
  shows "\<exists>e. chart_data history = Inl e"
proof -
  from assms(2) have "bindE (get h ''metrics'') object_keys = Inl TypeError"
    by (auto simp: object_keys_def)
  with assms(1) obtain e where
    "mapE (\<lambda>h. bindE (get h ''metrics'') object_keys) history = Inl e"
    using mapE_raises [of h history "\<lambda>h. bindE (get h ''metrics'') object_keys"] by blast
  then show ?thesis
    by (cases "mapE (\<lambda>h. get h ''timestamp'') history") (simp_all add: chart_data_def)
qed

lemma comparisons_raises:
  assumes "h \<in> set history" "get h ''metrics'' = Inr Undefined \<or> get h ''metrics'' = Inr Null"
  shows "\<exists>e. comparisons nts history metadata = Inl e"
  using chart_data_raises [OF assms] by (auto simp: comparisons_def)

lemma compare_metric_named:
  "compare_metric nts cur prev key = Inr rs \<Longrightarrow> \<forall>r \<in> set rs. cmp_metric r = key"
  by (auto simp: compare_metric_def bindE_eq_Inr Let_def split: if_splits)

lemma compare_metric_finite:
  assumes "get cur ''metrics'' = Inr cm" "get cm key = Inr c"
    and "get prev ''metrics'' = Inr pm" "get pm key = Inr p" "truthy p"
    and "get c ''actual'' = Inr ca" "parseFloat ca = Fin x"
    and "get p ''actual'' = Inr pa" "parseFloat pa = Fin y"
  shows "compare_metric nts cur prev key =
     Inr (if y = 0 then []
          else [\<lparr> cmp_metric = key, current = Fin x, previous = Fin y,
                   delta = to_fixed nts 1
                     (num_mul (num_div (num_sub (Fin x) (Fin y)) (Fin y)) (Fin 100)),
                   isImproved = (if str_includes key ''Throughput'' then y < x else x < y) \<rparr>])"
  by (simp add: compare_metric_def assms Let_def isNaN_def num_lt_def)

lemma compare_metric_returns:
  assumes "get cur ''metrics'' = Inr cm" "get cm key = Inr c" "c \<noteq> Undefined" "c \<noteq> Null"
    and "get prev ''metrics'' = Inr pm" "pm \<noteq> Undefined" "pm \<noteq> Null"
  shows "\<exists>r. compare_metric nts cur prev key = Inr r"
proof -
  let ?p = "own_prop (own_props pm) key"
  from assms have p: "get pm key = Inr ?p" by (simp add: get_Inr)
  show ?thesis
  proof (cases "truthy ?p")
    case True
    then have "?p \<noteq> Undefined" "?p \<noteq> Null" by (auto dest: truthy_not_nullish)
    then have "get ?p ''actual'' = Inr (own_prop (own_props ?p) ''actual'')"
      by (rule get_Inr)
    moreover from assms have "get c ''actual'' = Inr (own_prop (own_props c) ''actual'')"
      by (simp add: get_Inr)
    ultimately show ?thesis
      using assms p True by (simp add: compare_metric_def Let_def)
  next
    case False
    with assms p show ?thesis by (simp add: compare_metric_def)
  qed
qed

lemma comparisons_Some:
  assumes "comparisons nts history metadata = Inr (Some rs)"
  obtains cm rss where
    "2 \<le> length history"
    "chart_data history = Inr ()"
    "report_sections nts metadata = Inr ()"
    "get (history ! (length history - 1)) ''metrics'' = Inr cm"
    "cm \<noteq> Undefined" "cm \<noteq> Null"
    "list_all2 (\<lambda>k r. compare_metric nts (history ! (length history - 1))
        (history ! (length history - 2)) k = Inr r) (map fst (own_props cm)) rss"
    "rs = concat rss"
proof -
  from assms have pre: "chart_data history = Inr ()" "report_sections nts metadata = Inr ()"
    by (auto simp: comparisons_def bindE_eq_Inr)
  with assms have len: "2 \<le> length history"
    by (auto simp: comparisons_def split: if_splits)
  with assms pre obtain cm keys rss where
    cm: "get (history ! (length history - 1)) ''metrics'' = Inr cm"
    and keys: "object_keys cm = Inr keys"
    and rss: "mapE (compare_metric nts (history ! (length history - 1))
        (history ! (length history - 2))) keys = Inr rss"
    and rs: "rs = concat rss"
    by (auto simp: comparisons_def Let_def bindE_eq_Inr)
  from keys have nn: "cm \<noteq> Undefined" "cm \<noteq> Null" and k: "keys = map fst (own_props cm)"
    by (cases cm; simp add: object_keys_def)+
  from rss have "list_all2 (\<lambda>k r. compare_metric nts (history ! (length history - 1))
        (history ! (length history - 2)) k = Inr r) keys rss"
    by (rule mapE_Inr)
  with len pre cm nn k rs show thesis by (auto intro: that)
qed

lemma comparisons_returns:
  assumes len: "2 \<le> length history"
    and records: "\<forall>h \<in> set history.
        \<exists>ms. get h ''metrics'' = Inr ms \<and> ms \<noteq> Undefined \<and> ms \<noteq> Null"
    and sections: "report_sections nts metadata = Inr ()"
    and cur: "get (history ! (length history - 1)) ''metrics'' = Inr cm"
    and vals: "\<forall>v \<in> snd ` set (own_props cm). v \<noteq> Undefined \<and> v \<noteq> Null"
    and prev: "get (history ! (length history - 2)) ''metrics'' = Inr pm"
  shows "\<exists>rs. comparisons nts history metadata = Inr (Some rs)"
proof -
  let ?cur = "history ! (length history - 1)" and ?prev = "history ! (length history - 2)"
  from len have "?cur \<in> set history" "?prev \<in> set history" by simp_all
  with records cur prev have cm: "cm \<noteq> Undefined" "cm \<noteq> Null"
    and pm: "pm \<noteq> Undefined" "pm \<noteq> Null"
    by fastforce+
  have "\<exists>r. compare_metric nts ?cur ?prev k = Inr r" if "k \<in> set (map fst (own_props cm))" for k
  proof -
    from that obtain c where kc: "(k, c) \<in> set (own_props cm)" by auto
    with distinct_own_props [of cm] have "map_of (own_props cm) k = Some c" by simp
    with cm have "get cm k = Inr c" by (simp add: get_Inr own_prop_def)
    moreover from kc vals have "c \<noteq> Undefined" "c \<noteq> Null" by force+
    ultimately show ?thesis using cur prev pm by (intro compare_metric_returns)
  qed
  then obtain rss where "mapE (compare_metric nts ?cur ?prev) (map fst (own_props cm)) = Inr rss"
    using mapE_returns [of "map fst (own_props cm)" "compare_metric nts ?cur ?prev"] by blast
  moreover from cm have "object_keys cm = Inr (map fst (own_props cm))"
    by (cases cm) (simp_all add: object_keys_def)
  moreover note chart_data_returns [OF records]
  ultimately show ?thesis
    using len cur sections by (simp add: comparisons_def Let_def)
qed

lemma filter_concat_keyed:
  assumes "list_all2 (\<lambda>k rs. f k = Inr rs) keys rss"
    and named: "\<And>k rs. f k = Inr rs \<Longrightarrow> \<forall>r \<in> set rs. name r = k"
    and "distinct keys"
  shows "(k \<in> set keys \<longrightarrow> (\<forall>rk. f k = Inr rk \<longrightarrow> filter (\<lambda>r. name r = k) (concat rss) = rk))
       \<and> (k \<notin> set keys \<longrightarrow> filter (\<lambda>r. name r = k) (concat rss) = [])"
  using assms(1,3)
proof (induction keys rss rule: list_all2_induct)
  case Nil
  then show ?case by simp
next
  case (Cons a keys b rss)
  from Cons.hyps(1) have b: "\<forall>r \<in> set b. name r = a" by (rule named)
  from Cons.prems have "a \<notin> set keys" "distinct keys" by simp_all
  note IH = Cons.IH [OF \<open>distinct keys\<close>]
  show ?case
  proof (cases "k = a")
    case True
    with \<open>a \<notin> set keys\<close> IH have rest: "filter (\<lambda>r. name r = k) (concat rss) = []" by simp
    from b True have "filter (\<lambda>r. name r = k) b = b" by (simp add: filter_id_conv)
    with rest True Cons.hyps(1) show ?thesis by simp
  next
    case False
    with b have "filter (\<lambda>r. name r = k) b = []" by (auto simp: filter_empty_conv)
    with False IH show ?thesis by simp
  qed
qed


text \<open>The entries of a returned comparison for one metric that both runs have.\<close>

lemma comparison_of_metric:
  assumes run: "comparisons nts history metadata = Inr (Some rs)"
    and cur: "get (history ! (length history - 1)) ''metrics'' = Inr cm"
    and prev: "get (history ! (length history - 2)) ''metrics'' = Inr pm"
    and c: "map_of (own_props cm) k = Some c"
    and p: "get pm k = Inr p" "truthy p"
    and ca: "get c ''actual'' = Inr ca" "parseFloat ca = Fin x"
    and pa: "get p ''actual'' = Inr pa" "parseFloat pa = Fin y"
  shows "filter (\<lambda>r. cmp_metric r = k) rs =
       (if y = 0 then []
        else [\<lparr> cmp_metric = k, current = Fin x, previous = Fin y,
                 delta = to_fixed nts 1
                   (num_mul (num_div (num_sub (Fin x) (Fin y)) (Fin y)) (Fin 100)),
                 isImproved = (if str_includes k ''Throughput'' then y < x else x < y) \<rparr>])"
proof -
  let ?cur = "history ! (length history - 1)" and ?prev = "history ! (length history - 2)"
  let ?entry = "if y = 0 then []
        else [\<lparr> cmp_metric = k, current = Fin x, previous = Fin y,
                 delta = to_fixed nts 1
                   (num_mul (num_div (num_sub (Fin x) (Fin y)) (Fin y)) (Fin 100)),
                 isImproved = (if str_includes k ''Throughput'' then y < x else x < y) \<rparr>]"
  from run obtain cm' rss where
    cm': "get ?cur ''metrics'' = Inr cm'"
    and nn: "cm' \<noteq> Undefined" "cm' \<noteq> Null"
    and all: "list_all2 (\<lambda>k r. compare_metric nts ?cur ?prev k = Inr r)
        (map fst (own_props cm')) rss"
    and rs: "rs = concat rss"
    by (rule comparisons_Some)
  from cm' cur have [simp]: "cm' = cm" by simp
  from c have "(k, c) \<in> set (own_props cm)" by (rule map_of_SomeD)
  then have key: "k \<in> set (map fst (own_props cm))" by force
  from c nn have getc: "get cm k = Inr c"
    by (simp add: get_Inr own_prop_def)
  have one: "compare_metric nts ?cur ?prev k = Inr ?entry"
    using cur getc prev p ca pa by (rule compare_metric_finite)
  have named: "\<And>k rs. compare_metric nts ?cur ?prev k = Inr rs
      \<Longrightarrow> \<forall>r \<in> set rs. cmp_metric r = k"
    by (rule compare_metric_named)
  have distinct: "distinct (map fst (own_props cm))" by (rule distinct_own_props)
  have all': "list_all2 (\<lambda>k r. compare_metric nts ?cur ?prev k = Inr r)
        (map fst (own_props cm)) rss"
    using all by simp
  from filter_concat_keyed [of "compare_metric nts ?cur ?prev" "map fst (own_props cm)" rss
      cmp_metric k, OF all' named distinct]
  have "\<forall>rk. compare_metric nts ?cur ?prev k = Inr rk
      \<longrightarrow> filter (\<lambda>r. cmp_metric r = k) (concat rss) = rk"
    using key by blast
  with one have "filter (\<lambda>r. cmp_metric r = k) (concat rss) = ?entry"
    by blast
  with rs show ?thesis by simp
qed

text \<open>The worked history: what \<^verbatim>\<open>parseFloat\<close> reads of its values, and the deltas. The
  literal \<^verbatim>\<open>8.02\<close> is read as a double below \<open>802 / 100\<close>, and the delta of the median is
  printed as \<^verbatim>\<open>0.2\<close>; computed on the decimal values it would be \<open>0.25\<close>, printed as
  \<^verbatim>\<open>0.3\<close>.\<close>

lemma two_runs_values:
  "parseFloat_str ''8.00'' = Fin 8"
  "parseFloat_str ''100.00'' = Fin 100" "parseFloat_str ''120.00'' = Fin 120"
  "parseFloat_str ''0.00'' = Fin 0" "parseFloat_str ''1.00'' = Fin 1"
  "parseFloat_str ''10.00'' = Fin 10" "parseFloat_str ''12.00'' = Fin 12"
  by (simp_all add: parse_eval exact_doubles)

lemma p50Value_read: "parseFloat_str ''8.02'' = Fin p50Value"
proof -
  have "parseFloat_str ''8.02'' = round_double (802 / 100)"
    by (simp add: parse_eval)
  also have "\<dots> = Fin p50Value"
    by (simp add: round_eval p50Value_def)
  finally show ?thesis .
qed

lemma p50Value_above: "8 < p50Value" "\<not> p50Value < 8" "p50Value < 802 / 100"
  by (simp_all add: p50Value_def)

lemma two_runs_ratios:
  "num_mul (num_div (num_sub (Fin p50Value) (Fin 8)) (Fin 8)) (Fin 100)
     = Fin (140737488355325 / 2 ^ 49)"
  "num_mul (num_div (num_sub (Fin 120) (Fin 100)) (Fin 100)) (Fin 100) = Fin 20"
  "num_mul (num_div (num_sub (Fin 12) (Fin 10)) (Fin 10)) (Fin 100) = Fin 20"
  by (simp_all add: num_sub_def num_div_def num_mul_def round_eval p50Value_def)

lemma two_runs_deltas:
  "to_fixed show_int 1 (num_mul (num_div (num_sub (Fin p50Value) (Fin 8)) (Fin 8)) (Fin 100))
     = ''0.2''"
  "to_fixed show_int 1 (num_mul (num_div (num_sub (Fin 120) (Fin 100)) (Fin 100)) (Fin 100))
     = ''20.0''"
  "to_fixed show_int 1 (num_mul (num_div (num_sub (Fin 12) (Fin 10)) (Fin 10)) (Fin 100))
     = ''20.0''"
  by (simp_all add: two_runs_ratios num_eval)

lemma decimal_delta: "to_fixed show_int 1 (Fin ((802 / 100 - 8) / 8 * 100)) = ''0.3''"
  by (simp add: num_eval)

lemmas comparison_eval = comparisons_def chart_data_def report_sections_def summary_insight_def
  detail_table_def js_length_def compare_metric_def object_keys_def isNaN_def num_lt_def

lemma run_sections: "report_sections show_int runMetadata = Inr ()"
  by (simp add: runMetadata_def report_sections_def summary_insight_def detail_table_def
      js_length_def obj_eval cmp_eval)

lemma two_runs_comparison:
  "comparisons show_int twoRuns runMetadata = Inr (Some twoRunsComparison)"
  by (simp add: twoRuns_def previousMetrics_def currentMetrics_def twoRunsComparison_def
      runMetadata_def comparison_eval obj_eval cmp_eval two_runs_values p50Value_read
      two_runs_ratios num_eval p50Value_above)

text \<open>
  C5. In a history of at least two runs in which every record has a metrics object, after
  the summary and the detail tables of the report are rendered, the comparison is
  computed, and a metric \<open>k\<close> that the last two records have, with the numeric values
  \<open>x\<close> (current) and \<open>y\<close> (previous), has no entry in it when \<open>y = 0\<close>, and otherwise
  exactly one: its delta is \<^verbatim>\<open>(x - y) / y * 100\<close>, computed in doubles and printed with one
  decimal, and it is improved when \<open>x < y\<close>, except for a metric whose name contains
  \<^verbatim>\<open>Throughput\<close>, which is improved when \<open>x > y\<close>.
\<close>

theorem run_comparison_delta:
  assumes len: "2 \<le> length history"
    and records: "\<forall>h \<in> set history.
        \<exists>ms. get h ''metrics'' = Inr ms \<and> ms \<noteq> Undefined \<and> ms \<noteq> Null"
    and sections: "report_sections nts metadata = Inr ()"
    and cur: "get (history ! (length history - 1)) ''metrics'' = Inr cm"
    and vals: "\<forall>v \<in> snd ` set (own_props cm). v \<noteq> Undefined \<and> v \<noteq> Null"
    and prev: "get (history ! (length history - 2)) ''metrics'' = Inr pm"
    and c: "map_of (own_props cm) k = Some c"
    and p: "get pm k = Inr p" "truthy p"
    and ca: "get c ''actual'' = Inr ca" "parseFloat ca = Fin x"
    and pa: "get p ''actual'' = Inr pa" "parseFloat pa = Fin y"
  shows "\<exists>rs. comparisons nts history metadata = Inr (Some rs) \<and>
     filter (\<lambda>r. cmp_metric r = k) rs =
       (if y = 0 then []
        else [\<lparr> cmp_metric = k, current = Fin x, previous = Fin y,
                 delta = to_fixed nts 1
                   (num_mul (num_div (num_sub (Fin x) (Fin y)) (Fin y)) (Fin 100)),
                 isImproved = (if str_includes k ''Throughput'' then y < x else x < y) \<rparr>])"
proof -
  from comparisons_returns [OF len records sections cur vals prev]
  obtain rs where run: "comparisons nts history metadata = Inr (Some rs)" by blast
  from comparison_of_metric [OF run cur prev c p ca pa] run
  show ?thesis by blast
qed

theorem run_comparison_delta_witness:
  "comparisons show_int twoRuns runMetadata = Inr (Some twoRunsComparison)
   \<and> filter (\<lambda>r. cmp_metric r = ''Throughput (req/s)'') twoRunsComparison =
       [\<lparr> cmp_metric = ''Throughput (req/s)'', current = Fin 12, previous = Fin 10,
          delta = ''20.0'', isImproved = True \<rparr>]
   \<and> filter (\<lambda>r. cmp_metric r = ''P95 Response Time (ms)'') twoRunsComparison =
       [\<lparr> cmp_metric = ''P95 Response Time (ms)'', current = Fin 120, previous = Fin 100,
          delta = ''20.0'', isImproved = False \<rparr>]
   \<and> filter (\<lambda>r. cmp_metric r = ''P50 Response Time (ms)'') twoRunsComparison =
       [\<lparr> cmp_metric = ''P50 Response Time (ms)'', current = Fin p50Value, previous = Fin 8,
          delta = ''0.2'', isImproved = False \<rparr>]
   \<and> filter (\<lambda>r. cmp_metric r = ''Error Rate (%)'') twoRunsComparison = []"
proof -
  have cur: "get (twoRuns ! (length twoRuns - 1)) ''metrics'' = Inr currentMetrics"
    and prev: "get (twoRuns ! (length twoRuns - 2)) ''metrics'' = Inr previousMetrics"
    by (simp_all add: twoRuns_def obj_eval)
  have c: "map_of (own_props currentMetrics) ''Throughput (req/s)''
        = Some (Obj [(''actual'', Str ''12.00'')])"
      "map_of (own_props currentMetrics) ''P95 Response Time (ms)''
        = Some (Obj [(''actual'', Str ''120.00'')])"
      "map_of (own_props currentMetrics) ''P50 Response Time (ms)''
        = Some (Obj [(''actual'', Str ''8.02'')])"
      "map_of (own_props currentMetrics) ''Error Rate (%)''
        = Some (Obj [(''actual'', Str ''1.00'')])"
    by (simp_all add: currentMetrics_def obj_eval)
  have p: "get previousMetrics ''Throughput (req/s)'' = Inr (Obj [(''actual'', Str ''10.00'')])"
      "get previousMetrics ''P95 Response Time (ms)'' = Inr (Obj [(''actual'', Str ''100.00'')])"
      "get previousMetrics ''P50 Response Time (ms)'' = Inr (Obj [(''actual'', Str ''8.00'')])"
      "get previousMetrics ''Error Rate (%)'' = Inr (Obj [(''actual'', Str ''0.00'')])"
    by (simp_all add: previousMetrics_def obj_eval)
  have t: "\<And>s. truthy (Obj [(''actual'', Str s)])" by (simp add: truthy_def)
  have a: "\<And>s. get (Obj [(''actual'', Str s)]) ''actual'' = Inr (Str s)"
    by (simp add: obj_eval)
  have v: "parseFloat (Str ''12.00'') = Fin 12" "parseFloat (Str ''10.00'') = Fin 10"
      "parseFloat (Str ''120.00'') = Fin 120" "parseFloat (Str ''100.00'') = Fin 100"
      "parseFloat (Str ''8.02'') = Fin p50Value" "parseFloat (Str ''8.00'') = Fin 8"
      "parseFloat (Str ''1.00'') = Fin 1" "parseFloat (Str ''0.00'') = Fin 0"
    by (simp_all add: two_runs_values p50Value_read)
  have i: "str_includes ''Throughput (req/s)'' ''Throughput''"
      "\<not> str_includes ''P95 Response Time (ms)'' ''Throughput''"
      "\<not> str_includes ''P50 Response Time (ms)'' ''Throughput''"
    by simp_all
  have len: "2 \<le> length twoRuns" by (simp add: twoRuns_def)
  have records: "\<forall>h \<in> set twoRuns.
      \<exists>ms. get h ''metrics'' = Inr ms \<and> ms \<noteq> Undefined \<and> ms \<noteq> Null"
    by (simp add: twoRuns_def previousMetrics_def currentMetrics_def obj_eval)
  have vals: "\<forall>v \<in> snd ` set (own_props currentMetrics). v \<noteq> Undefined \<and> v \<noteq> Null"
    by (simp add: currentMetrics_def obj_eval)
  note inst = run_comparison_delta [OF len records run_sections cur vals prev]
  from inst [OF c(1) p(1) t a v(1) a v(2)] inst [OF c(2) p(2) t a v(3) a v(4)]
    inst [OF c(3) p(3) t a v(5) a v(6)] inst [OF c(4) p(4) t a v(7) a v(8)]
  have "filter (\<lambda>r. cmp_metric r = ''Throughput (req/s)'') twoRunsComparison =
       [\<lparr> cmp_metric = ''Throughput (req/s)'', current = Fin 12, previous = Fin 10,
          delta = ''20.0'', isImproved = True \<rparr>]
   \<and> filter (\<lambda>r. cmp_metric r = ''P95 Response Time (ms)'') twoRunsComparison =
       [\<lparr> cmp_metric = ''P95 Response Time (ms)'', current = Fin 120, previous = Fin 100,
          delta = ''20.0'', isImproved = False \<rparr>]
   \<and> filter (\<lambda>r. cmp_metric r = ''P50 Response Time (ms)'') twoRunsComparison =
       [\<lparr> cmp_metric = ''P50 Response Time (ms)'', current = Fin p50Value, previous = Fin 8,
          delta = ''0.2'', isImproved = False \<rparr>]
   \<and> filter (\<lambda>r. cmp_metric r = ''Error Rate (%)'') twoRunsComparison = []"
    unfolding two_runs_deltas two_runs_comparison by (simp add: i p50Value_above)
  with two_runs_comparison show ?thesis by simp
qed

section \<open>Properties of the alert severity\<close>

text \<open>
  C4. For numeric P95 latency \<open>p\<close> and error rate \<open>e\<close> and an alert table with the critical
  bounds \<open>cp\<close>, \<open>ce\<close> and the warning bounds \<open>wp\<close>, \<open>we\<close>: the severity is Critical if
  \<open>p > cp\<close> or \<open>e > ce\<close>; otherwise Warning if \<open>p > wp\<close> or \<open>e > we\<close>; otherwise
  Healthy. A P95 above both its bounds is Critical.
\<close>

theorem severity_critical_first:
  assumes crit: "get alerts ''critical'' = Inr crit"
    and cp: "get crit ''p95_response_time_ms'' = Inr (Num (Fin cp))"
    and ce: "get crit ''max_error_rate_percent'' = Inr (Num (Fin ce))"
    and warn: "get alerts ''warning'' = Inr warn"
    and wp: "get warn ''p95_response_time_ms'' = Inr (Num (Fin wp))"
    and we: "get warn ''max_error_rate_percent'' = Inr (Num (Fin we))"
    and p95: "p95ResponseTime km = Num (Fin p)"
    and err: "errorRate km = Num (Fin e)"
  shows "severityLevel nts km alerts =
      Inr (if cp < p \<or> ce < e then CRITICAL
           else if wp < p \<or> we < e then WARNING
           else HEALTHY)
     \<and> (cp < p \<and> wp < p \<longrightarrow> severityLevel nts km alerts = Inr CRITICAL)"
  by (simp add: severityLevel_def crit cp ce warn wp we p95 err js_greater_Fin)

theorem severity_critical_first_witness:
  "severityLevel show_int slowMetrics default_alerts = Inr CRITICAL"
proof -
  let ?crit = "Obj [(''p95_response_time_ms'', Num (Fin 2000)),
                    (''max_error_rate_percent'', Num (Fin 10))]"
  let ?warn = "Obj [(''p95_response_time_ms'', Num (Fin 800)),
                    (''max_error_rate_percent'', Num (Fin 3))]"
  have crit: "get default_alerts ''critical'' = Inr ?crit"
    and warn: "get default_alerts ''warning'' = Inr ?warn"
    by (simp_all add: default_alerts_def obj_eval)
  have cp: "get ?crit ''p95_response_time_ms'' = Inr (Num (Fin 2000))"
    and ce: "get ?crit ''max_error_rate_percent'' = Inr (Num (Fin 10))"
    and wp: "get ?warn ''p95_response_time_ms'' = Inr (Num (Fin 800))"
    and we: "get ?warn ''max_error_rate_percent'' = Inr (Num (Fin 3))"
    by (simp_all add: obj_eval)
  have p95: "p95ResponseTime slowMetrics = Num (Fin 2500)"
    and err: "errorRate slowMetrics = Num (Fin 0)"
    by (simp_all add: slowMetrics_def initial_metrics_def)
  from severity_critical_first [OF crit cp ce warn wp we p95 err, of show_int]
  show ?thesis by simp
qed

end
